theory Spec2Isabelle
  imports Complex_Main "HOL-Library.Word"
begin

section \<open>JavaScript strings and values\<close>

text \<open>
  A JavaScript string is a sequence of UTF-16 code units. ASCII literals of the source are
  written \<open>ascii ''...''\<close>; a character outside ASCII is written by its code units.
\<close>

type_synonym jsstring = "16 word list"

definition ascii :: "string \<Rightarrow> jsstring" where
  "ascii s = map of_char s"

text \<open>
  The numbers that JSON text can denote: the finite ones (every finite double is a
  rational number), negative zero, and the two infinities that an overlong literal such
  as \<open>1e999\<close> gives. \<open>NaN\<close> is not the value of any JSON text.
\<close>

datatype number =
    Finite rat
  | NegZero
  | PosInfinity
  | NegInfinity

text \<open>
  The values that \<open>response.json()\<close> can deliver, plus \<open>undefined\<close> (the result of reading
  a property that is not there). An object is the list of its own properties, each key
  once, in the order in which the engine enumerates them, which is the order of
  \<open>Object.entries\<close>: the keys that are array indices first, in ascending order, then the
  other keys in the order of their creation.
\<close>

datatype jsvalue =
    JUndefined
  | JNull
  | JBool bool
  | JNum number
  | JStr jsstring
  | JArr "jsvalue list"
  | JObj "(jsstring \<times> jsvalue) list"

definition nullish :: "jsvalue \<Rightarrow> bool" where
  "nullish v \<longleftrightarrow> v = JUndefined \<or> v = JNull"

text \<open>Decimal digits of a natural number, as in \<open>`${response.status}`\<close> or an array index key.\<close>

fun decimal :: "nat \<Rightarrow> jsstring" where
  "decimal n = (if n < 10 then [of_nat (48 + n)] else decimal (n div 10) @ [of_nat (48 + n mod 10)])"

declare decimal.simps [simp del]

text \<open>\<open>Array.prototype.join\<close> on an array of strings.\<close>

fun join :: "jsstring \<Rightarrow> jsstring list \<Rightarrow> jsstring" where
  "join sep [] = []"
| "join sep [x] = x"
| "join sep (x # y # ys) = x @ sep @ join sep (y # ys)"

text \<open>
  ToBoolean: what \<open>if (v)\<close> and \<open>!v\<close> test. Of the numbers, the two zeros are falsy.
\<close>

fun truthy :: "jsvalue \<Rightarrow> bool" where
  "truthy JUndefined = False"
| "truthy JNull = False"
| "truthy (JBool b) = b"
| "truthy (JNum n) = (n \<noteq> Finite 0 \<and> n \<noteq> NegZero)"
| "truthy (JStr s) = (s \<noteq> [])"
| "truthy (JArr xs) = True"
| "truthy (JObj kvs) = True"

section \<open>Errors and the host\<close>

text \<open>
  The exceptions of the program are values. \<open>Error m\<close> is \<open>new Error(m)\<close>. \<open>TypeError f\<close> is
  raised by the engine itself; the wording of its message is the engine's, so the model
  keeps the fault and leaves the wording to the host. \<open>HostError name message\<close> is an error
  that comes from outside the program: a rejected \<open>fetch\<close> (\<open>TypeError\<close>, or \<open>AbortError\<close> when
  the request was aborted) or a \<open>response.json()\<close> that cannot parse the body
  (\<open>SyntaxError\<close>).

  The faults: reading a property of \<open>undefined\<close> or \<open>null\<close>; \<open>Object.entries\<close> or
  \<open>Object.keys\<close> of \<open>undefined\<close> or \<open>null\<close>; calling a property that is not a function;
  converting to a string or a number an object that has no usable \<open>toString\<close>.
\<close>

datatype fault =
    ReadOfNullish jsvalue jsstring
  | NotAnObject jsvalue
  | NotAFunction jsstring
  | NotPrimitive jsvalue

datatype js_error =
    Error jsstring
  | TypeError fault
  | HostError jsstring jsstring

text \<open>
  What the program takes from its host and does not define: the number format of
  \<open>Intl.NumberFormat('ms-MY')\<close> (applied to a value that is not an object), the text of a
  number (\<open>Number.prototype.toString\<close>), the message text of the engine's type errors, and
  whether a string converts to a number greater than zero.
\<close>

record host =
  intl_format :: "jsvalue \<Rightarrow> jsstring"
  number_text :: "number \<Rightarrow> jsstring"
  type_error_text :: "fault \<Rightarrow> jsstring"
  positive_string :: "jsstring \<Rightarrow> bool"

fun error_message :: "host \<Rightarrow> js_error \<Rightarrow> jsstring" where
  "error_message h (Error m) = m"
| "error_message h (TypeError f) = type_error_text h f"
| "error_message h (HostError n m) = m"

section \<open>Conversions and property access\<close>

text \<open>
  The abstract operation ToString on these values. An array is joined with commas, its
  \<open>null\<close> and \<open>undefined\<close> elements giving the empty string and its other elements their own
  ToString, in order. An object is converted by its \<open>toString\<close> method: a parsed object
  inherits the one of \<open>Object.prototype\<close>, which gives \<open>[object Object]\<close>, unless it has an
  own property \<open>toString\<close>; that property is not a function, \<open>valueOf\<close> does not give a
  primitive value either, and the conversion raises a type error.
\<close>

fun ToString :: "host \<Rightarrow> jsvalue \<Rightarrow> js_error + jsstring"
  and ToString_elements :: "host \<Rightarrow> jsvalue list \<Rightarrow> js_error + jsstring list" where
  "ToString h JUndefined = Inr (ascii ''undefined'')"
| "ToString h JNull = Inr (ascii ''null'')"
| "ToString h (JBool b) = Inr (if b then ascii ''true'' else ascii ''false'')"
| "ToString h (JNum n) = Inr (number_text h n)"
| "ToString h (JStr s) = Inr s"
| "ToString h (JArr xs) =
     (case ToString_elements h xs of
        Inl e \<Rightarrow> Inl e
      | Inr parts \<Rightarrow> Inr (join (ascii '','') parts))"
| "ToString h (JObj kvs) =
     (if ascii ''toString'' \<in> fst ` set kvs then Inl (TypeError (NotPrimitive (JObj kvs)))
      else Inr (ascii ''[object Object]''))"
| "ToString_elements h [] = Inr []"
| "ToString_elements h (x # xs) =
     (case (if x = JUndefined \<or> x = JNull then Inr [] else ToString h x) of
        Inl e \<Rightarrow> Inl e
      | Inr part \<Rightarrow>
          (case ToString_elements h xs of
             Inl e \<Rightarrow> Inl e
           | Inr parts \<Rightarrow> Inr (part # parts)))"

text \<open>
  ToPrimitive, for a conversion to a number: a value that is not an object is itself; an
  array or an object is converted through \<open>valueOf\<close>, which gives no primitive value, and
  then through \<open>toString\<close>, so that the result is the string of ToString, or its exception.
\<close>

definition ToPrimitive :: "host \<Rightarrow> jsvalue \<Rightarrow> js_error + jsvalue" where
  "ToPrimitive h v =
     (case v of
        JArr xs \<Rightarrow> (case ToString h v of Inl e \<Rightarrow> Inl e | Inr s \<Rightarrow> Inr (JStr s))
      | JObj kvs \<Rightarrow> (case ToString h v of Inl e \<Rightarrow> Inl e | Inr s \<Rightarrow> Inr (JStr s))
      | _ \<Rightarrow> Inr v)"

text \<open>
  The comparison \<open>v > 0\<close>: the value is made primitive; \<open>undefined\<close> converts to \<open>NaN\<close> and
  \<open>null\<close> to zero, \<open>true\<close> to one, a string to the number the host reads in it.
\<close>

definition greater_than_zero :: "host \<Rightarrow> jsvalue \<Rightarrow> js_error + bool" where
  "greater_than_zero h v =
     (case ToPrimitive h v of
        Inl e \<Rightarrow> Inl e
      | Inr p \<Rightarrow>
          Inr (case p of
                 JBool b \<Rightarrow> b
               | JNum n \<Rightarrow> (case n of Finite r \<Rightarrow> r > 0 | PosInfinity \<Rightarrow> True | _ \<Rightarrow> False)
               | JStr s \<Rightarrow> positive_string h s
               | _ \<Rightarrow> False))"

text \<open>
  The own enumerable properties of a value that is neither \<open>undefined\<close> nor \<open>null\<close>, in
  enumeration order: those of an object; the indices of an array or of a string; none for
  a number or a boolean.
\<close>

fun own_entries :: "jsvalue \<Rightarrow> (jsstring \<times> jsvalue) list" where
  "own_entries (JObj kvs) = kvs"
| "own_entries (JArr xs) = zip (map decimal [0..<length xs]) xs"
| "own_entries (JStr s) = zip (map decimal [0..<length s]) (map (\<lambda>c. JStr [c]) s)"
| "own_entries v = []"

definition Object_entries :: "jsvalue \<Rightarrow> js_error + (jsstring \<times> jsvalue) list" where
  "Object_entries v = (if nullish v then Inl (TypeError (NotAnObject v)) else Inr (own_entries v))"

definition Object_keys :: "jsvalue \<Rightarrow> js_error + jsstring list" where
  "Object_keys v = (if nullish v then Inl (TypeError (NotAnObject v)) else Inr (map fst (own_entries v)))"

text \<open>
  Reading a property, \<open>v.p\<close> or \<open>v[p]\<close>. Reading from \<open>undefined\<close> or \<open>null\<close> raises. Otherwise
  the result is the own property, the \<open>length\<close> of an array or a string, or \<open>undefined\<close>. The
  program reads the names \<open>plan\<close>, \<open>answer\<close>, \<open>total\<close>, \<open>groups\<close>, \<open>length\<close>, \<open>label\<close>, \<open>data\<close>,
  \<open>COUNT\<close>, \<open>error\<close> and the first own key of a row; none of them is inherited from a
  built-in prototype.
\<close>

definition own_property :: "jsvalue \<Rightarrow> jsstring \<Rightarrow> jsvalue" where
  "own_property v p = (case map_of (own_entries v) p of Some x \<Rightarrow> x | None \<Rightarrow> JUndefined)"

definition get :: "jsvalue \<Rightarrow> jsstring \<Rightarrow> js_error + jsvalue" where
  "get v p =
     (if nullish v then Inl (TypeError (ReadOfNullish v p))
      else Inr (case v of
          JArr xs \<Rightarrow> if p = ascii ''length'' then JNum (Finite (of_nat (length xs))) else own_property v p
        | JStr s \<Rightarrow> if p = ascii ''length'' then JNum (Finite (of_nat (length s))) else own_property v p
        | _ \<Rightarrow> own_property v p))"

text \<open>
  The receiver of \<open>.map(...)\<close>: the elements of an array. On \<open>undefined\<close> or \<open>null\<close> the read
  of \<open>map\<close> raises; on any other value of this model \<open>map\<close> is not a function.
\<close>

definition array_elements :: "jsvalue \<Rightarrow> js_error + jsvalue list" where
  "array_elements v =
     (case v of
        JArr xs \<Rightarrow> Inr xs
      | _ \<Rightarrow> if nullish v then Inl (TypeError (ReadOfNullish v (ascii ''map'')))
             else Inl (TypeError (NotAFunction (ascii ''map''))))"

text \<open>\<open>Array.prototype.map\<close> with a callback that may raise: the first exception ends the loop.\<close>

fun map_raising :: "('a \<Rightarrow> js_error + 'b) \<Rightarrow> 'a list \<Rightarrow> js_error + 'b list" where
  "map_raising f [] = Inr []"
| "map_raising f (x # xs) =
     (case f x of
        Inl e \<Rightarrow> Inl e
      | Inr y \<Rightarrow> (case map_raising f xs of Inl e \<Rightarrow> Inl e | Inr ys \<Rightarrow> Inr (y # ys)))"

section \<open>utils.js\<close>

subsection \<open>escapeHtml\<close>

text \<open>
  \<^verbatim>\<open>escapeHtml: (text) => { const div = document.createElement('div');
                        div.textContent = text; return div.innerHTML; }\<close>

  The function is the DOM's own escaping. Setting \<open>textContent\<close> replaces the children of
  the element by one text node holding the string, or by nothing when the string is empty
  (\<open>null\<close> and \<open>undefined\<close> count as the empty string; any other value is converted by
  ToString, whose exception the assignment passes on). Reading \<open>innerHTML\<close> serialises the
  children; a text node under a \<open>div\<close> is serialised by the HTML standard's "escaping a
  string" outside attribute mode: \<open>&\<close> becomes \<open>&amp;\<close>, U+00A0 becomes \<open>&nbsp;\<close>, \<open><\<close> becomes
  \<open>&lt;\<close>, \<open>>\<close> becomes \<open>&gt;\<close>, and every other code unit is copied.
\<close>

datatype dom_node = Text jsstring

definition set_textContent :: "host \<Rightarrow> jsvalue \<Rightarrow> js_error + dom_node list" where
  "set_textContent h v =
     (case (if v = JUndefined \<or> v = JNull then Inr [] else ToString h v) of
        Inl e \<Rightarrow> Inl e
      | Inr s \<Rightarrow> Inr (if s = [] then [] else [Text s]))"

definition escapeText :: "16 word \<Rightarrow> jsstring" where
  "escapeText c =
     (if c = 0x26 then ascii ''&amp;''
      else if c = 0xA0 then ascii ''&nbsp;''
      else if c = 0x3C then ascii ''&lt;''
      else if c = 0x3E then ascii ''&gt;''
      else [c])"

fun serialize_node :: "dom_node \<Rightarrow> jsstring" where
  "serialize_node (Text s) = concat (map escapeText s)"

definition innerHTML :: "dom_node list \<Rightarrow> jsstring" where
  "innerHTML children = concat (map serialize_node children)"

definition escapeHtml :: "host \<Rightarrow> jsvalue \<Rightarrow> js_error + jsstring" where
  "escapeHtml h text =
     (case set_textContent h text of
        Inl e \<Rightarrow> Inl e
      | Inr children \<Rightarrow> Inr (innerHTML children))"

subsection \<open>formatKey\<close>

text \<open>
  \<^verbatim>\<open>formatKey: (key) => key.replace(/_/g, ' ').replace(/\b\w/g, l => l.toUpperCase())\<close>

  \<open>\w\<close> is the class \<open>[A-Za-z0-9_]\<close>. \<open>\b\w\<close> matches a word character that stands at a word
  boundary, that is, one whose predecessor in the string is not a word character (or that
  is the first character). The scan goes from left to right and carries whether the
  previous character was a word character. \<open>toUpperCase\<close> is applied to one matched
  character of \<open>\w\<close> only: it maps \<open>a\<close>..\<open>z\<close> to \<open>A\<close>..\<open>Z\<close> and leaves digits and \<open>_\<close> alone.
\<close>

definition isWordChar :: "16 word \<Rightarrow> bool" where
  "isWordChar c \<longleftrightarrow>
     (0x41 \<le> c \<and> c \<le> 0x5A) \<or> (0x61 \<le> c \<and> c \<le> 0x7A) \<or> (0x30 \<le> c \<and> c \<le> 0x39) \<or> c = 0x5F"

definition toUpperCase_w :: "16 word \<Rightarrow> 16 word" where
  "toUpperCase_w l = (if 0x61 \<le> l \<and> l \<le> 0x7A then l - 0x20 else l)"

definition replace_underscores :: "jsstring \<Rightarrow> jsstring" where
  "replace_underscores key = map (\<lambda>c. if c = 0x5F then 0x20 else c) key"

fun replace_word_starts :: "bool \<Rightarrow> jsstring \<Rightarrow> jsstring" where
  "replace_word_starts prev [] = []"
| "replace_word_starts prev (c # cs) =
     (if isWordChar c \<and> \<not> prev then toUpperCase_w c else c) # replace_word_starts (isWordChar c) cs"

definition formatKey :: "jsstring \<Rightarrow> jsstring" where
  "formatKey key = replace_word_starts False (replace_underscores key)"

section \<open>config.js\<close>

definition API_BASE_URL :: jsstring where
  "API_BASE_URL = ascii ''http://localhost:8000''"

definition HEALTH_CHECK_INTERVAL :: nat where
  "HEALTH_CHECK_INTERVAL = 30000"

definition RETRY_ATTEMPTS :: int where
  "RETRY_ATTEMPTS = 3"

definition RETRY_DELAY :: nat where
  "RETRY_DELAY = 1000"

section \<open>resultsModule.js\<close>

text \<open>
  \<open>Utils.formatNumber\<close> is \<open>new Intl.NumberFormat('ms-MY').format(num)\<close>: the argument is made
  primitive, which may raise, and the host formats the primitive value.
\<close>

definition formatNumber :: "host \<Rightarrow> jsvalue \<Rightarrow> js_error + jsstring" where
  "formatNumber h num =
     (case ToPrimitive h num of
        Inl e \<Rightarrow> Inl e
      | Inr p \<Rightarrow> Inr (intl_format h p))"

definition nl :: jsstring where
  "nl = [0x0A]"

text \<open>
  The template literals of the module, with their line breaks and indentation. The
  characters outside ASCII are the pictographs U+1F4CA, U+1F3AF and U+1F4C8, each two code
  units.
\<close>

definition totalCount :: "jsstring \<Rightarrow> jsstring" where
  \<open>totalCount tot =
     nl @ ascii ''                <div class="total-count">'' @
     nl @ ascii ''                    '' @ [0xD83D, 0xDCCA] @ ascii '' Jumlah Keseluruhan: '' @ tot @ ascii '' orang'' @
     nl @ ascii ''                </div>'' @
     nl @ ascii ''            ''\<close>

definition planItem :: "jsstring \<Rightarrow> jsstring \<Rightarrow> jsstring" where
  \<open>planItem label val =
     nl @ ascii ''                <div class="data-item">'' @
     nl @ ascii ''                    <span>'' @ label @ ascii '':</span> <!-- Format the key for display -->'' @
     nl @ ascii ''                    <span class="data-value">'' @ val @ ascii ''</span> <!-- Escape value for safety -->'' @
     nl @ ascii ''                </div>'' @
     nl @ ascii ''            ''\<close>

definition planCard :: "jsstring \<Rightarrow> jsstring" where
  \<open>planCard filteredPlan =
     nl @ ascii ''            <div class="result-card">'' @
     nl @ ascii ''                <div class="result-title">'' @ [0xD83C, 0xDFAF] @ ascii '' Parameter Carian</div>'' @
     nl @ ascii ''                '' @ filteredPlan @
     nl @ ascii ''            </div>'' @
     nl @ ascii ''        ''\<close>

definition groupItem :: "jsstring \<Rightarrow> jsstring \<Rightarrow> jsstring" where
  \<open>groupItem val count =
     nl @ ascii ''                        <div class="data-item">'' @
     nl @ ascii ''                            <span>'' @ val @ ascii ''</span> <!-- Display the data item value -->'' @
     nl @ ascii ''                            <span class="data-value">'' @ count @ ascii ''</span> <!-- Display the formatted count -->'' @
     nl @ ascii ''                        </div>'' @
     nl @ ascii ''                    ''\<close>

definition groupData :: "jsstring \<Rightarrow> jsstring \<Rightarrow> jsstring" where
  \<open>groupData label items =
     nl @ ascii ''            <div class="group-data">'' @
     nl @ ascii ''                <div class="group-title">'' @ label @ ascii ''</div> <!-- Group label -->'' @
     nl @ ascii ''                '' @ items @
     nl @ ascii ''            </div>'' @
     nl @ ascii ''        ''\<close>

definition groupsCard :: "jsstring \<Rightarrow> jsstring" where
  \<open>groupsCard groupsHtml =
     nl @ ascii ''            <div class="result-card">'' @
     nl @ ascii ''                <div class="result-title">'' @ [0xD83D, 0xDCC8] @ ascii '' Pecahan Data</div>'' @
     nl @ ascii ''                '' @ groupsHtml @
     nl @ ascii ''            </div>'' @
     nl @ ascii ''        ''\<close>

text \<open>
  \<^verbatim>\<open>generatePlanCard(plan) {
    const filteredPlan = Object.entries(plan)
        .filter(([key, value]) => value !== 'Any')
        .map(([key, value]) => `... ${Utils.formatKey(key)} ... ${Utils.escapeHtml(value)} ...`)
        .join('');
    return `... ${filteredPlan} ...`; }\<close>
\<close>

definition generatePlanCard :: "host \<Rightarrow> jsvalue \<Rightarrow> js_error + jsstring" where
  "generatePlanCard h plan =
     (case Object_entries plan of
        Inl e \<Rightarrow> Inl e
      | Inr entries \<Rightarrow>
          (case map_raising
                  (\<lambda>(key, val).
                     case escapeHtml h val of
                       Inl e \<Rightarrow> Inl e
                     | Inr escaped \<Rightarrow> Inr (planItem (formatKey key) escaped))
                  (filter (\<lambda>(key, val). val \<noteq> JStr (ascii ''Any'')) entries) of
             Inl e \<Rightarrow> Inl e
           | Inr items \<Rightarrow> Inr (planCard (join [] items))))"

text \<open>
  One row of a group: \<open>const key = Object.keys(item)[0]; const count = item.COUNT;\<close> and
  the template over \<open>Utils.escapeHtml(item[key])\<close> and \<open>Utils.formatNumber(count)\<close>, in this
  order. With no own key, \<open>key\<close> is \<open>undefined\<close> and \<open>item[key]\<close> reads the property named
  \<open>undefined\<close>.
\<close>

definition generateGroupItem :: "host \<Rightarrow> jsvalue \<Rightarrow> js_error + jsstring" where
  "generateGroupItem h item =
     (case Object_keys item of
        Inl e \<Rightarrow> Inl e
      | Inr keys \<Rightarrow>
          let key = (case keys of [] \<Rightarrow> ascii ''undefined'' | k # _ \<Rightarrow> k) in
          (case get item (ascii ''COUNT'') of
             Inl e \<Rightarrow> Inl e
           | Inr count \<Rightarrow>
               (case get item key of
                  Inl e \<Rightarrow> Inl e
                | Inr v \<Rightarrow>
                    (case escapeHtml h v of
                       Inl e \<Rightarrow> Inl e
                     | Inr escaped \<Rightarrow>
                         (case formatNumber h count of
                            Inl e \<Rightarrow> Inl e
                          | Inr formatted \<Rightarrow> Inr (groupItem escaped formatted))))))"

text \<open>
  One group: the template over \<open>Utils.escapeHtml(group.label)\<close> and then over the rows of
  \<open>group.data.map(...)\<close>.
\<close>

definition generateGroupData :: "host \<Rightarrow> jsvalue \<Rightarrow> js_error + jsstring" where
  "generateGroupData h grp =
     (case get grp (ascii ''label'') of
        Inl e \<Rightarrow> Inl e
      | Inr label \<Rightarrow>
          (case escapeHtml h label of
             Inl e \<Rightarrow> Inl e
           | Inr escaped \<Rightarrow>
               (case get grp (ascii ''data'') of
                  Inl e \<Rightarrow> Inl e
                | Inr d \<Rightarrow>
                    (case array_elements d of
                       Inl e \<Rightarrow> Inl e
                     | Inr items \<Rightarrow>
                         (case map_raising (generateGroupItem h) items of
                            Inl e \<Rightarrow> Inl e
                          | Inr rows \<Rightarrow> Inr (groupData escaped (join [] rows)))))))"

definition generateGroupsCard :: "host \<Rightarrow> jsvalue \<Rightarrow> js_error + jsstring" where
  "generateGroupsCard h groups =
     (case array_elements groups of
        Inl e \<Rightarrow> Inl e
      | Inr gs \<Rightarrow>
          (case map_raising (generateGroupData h) gs of
             Inl e \<Rightarrow> Inl e
           | Inr blocks \<Rightarrow> Inr (groupsCard (join [] blocks))))"

text \<open>
  The module holds its output element, \<open>null\<close> when the page has none. Of the element the
  model keeps the markup last assigned to its \<open>innerHTML\<close>.

  \<^verbatim>\<open>displayResults(data) {
    if (!this.container || !data) return;
    const { plan, answer } = data;
    let html = '';
    if (answer.total !== undefined) { html += `... ${Utils.formatNumber(answer.total)} ...`; }
    html += this.generatePlanCard(plan);
    if (answer.groups && answer.groups.length > 0) { html += this.generateGroupsCard(answer.groups); }
    this.container.innerHTML = html; }\<close>
\<close>

record ResultsModule =
  results_container :: "jsstring option"

definition displayResults :: "host \<Rightarrow> jsvalue \<Rightarrow> ResultsModule \<Rightarrow> js_error + ResultsModule" where
  "displayResults h data rm =
     (if results_container rm = None \<or> \<not> truthy data then Inr rm
      else
        (case get data (ascii ''plan'') of
           Inl e \<Rightarrow> Inl e
         | Inr plan \<Rightarrow>
        (case get data (ascii ''answer'') of
           Inl e \<Rightarrow> Inl e
         | Inr answer \<Rightarrow>
        (case get answer (ascii ''total'') of
           Inl e \<Rightarrow> Inl e
         | Inr tot \<Rightarrow>
        (case (if tot \<noteq> JUndefined
               then (case formatNumber h tot of
                       Inl e \<Rightarrow> Inl e
                     | Inr formatted \<Rightarrow> Inr (totalCount formatted))
               else Inr []) of
           Inl e \<Rightarrow> Inl e
         | Inr html1 \<Rightarrow>
        (case generatePlanCard h plan of
           Inl e \<Rightarrow> Inl e
         | Inr pcard \<Rightarrow>
        let html2 = html1 @ pcard in
        (case get answer (ascii ''groups'') of
           Inl e \<Rightarrow> Inl e
         | Inr groups \<Rightarrow>
        if truthy groups then
          (case get groups (ascii ''length'') of
             Inl e \<Rightarrow> Inl e
           | Inr len \<Rightarrow>
               (case greater_than_zero h len of
                  Inl e \<Rightarrow> Inl e
                | Inr positive \<Rightarrow>
                    if positive then
                      (case generateGroupsCard h groups of
                         Inl e \<Rightarrow> Inl e
                       | Inr gcard \<Rightarrow> Inr (rm\<lparr>results_container := Some (html2 @ gcard)\<rparr>))
                    else Inr (rm\<lparr>results_container := Some html2\<rparr>)))
        else Inr (rm\<lparr>results_container := Some html2\<rparr>))))))))"

section \<open>statusManager.js: the indicator\<close>

text \<open>
  A DOM element, as far as the program uses it: its text and its class attribute. The
  status manager holds the indicator element, \<open>null\<close> when the page has none.
\<close>

record element =
  textContent :: jsstring
  className :: jsstring

record StatusManager =
  indicator :: "element option"

text \<open>
  \<^verbatim>\<open>const statusConfig = {
    online:   { text: '(U+1F7E2) Backend Online',  class: 'status-online' },
    offline:  { text: '(U+1F534) Backend Offline', class: 'status-offline' },
    checking: { text: '(U+1F7E1) Checking...',     class: 'status-checking' } };\<close>
\<close>

definition statusConfig :: "(jsstring \<times> jsstring \<times> jsstring) list" where
  "statusConfig =
     [(ascii ''online'', [0xD83D, 0xDFE2] @ ascii '' Backend Online'', ascii ''status-online''),
      (ascii ''offline'', [0xD83D, 0xDD34] @ ascii '' Backend Offline'', ascii ''status-offline''),
      (ascii ''checking'', [0xD83D, 0xDFE1] @ ascii '' Checking...'', ascii ''status-checking'')]"

text \<open>
  \<open>statusConfig\<close> is an object literal, so \<open>statusConfig[status]\<close> also finds what the literal
  inherits from \<open>Object.prototype\<close>. These are the names of its members; each of them is a
  function, or for \<open>__proto__\<close> the prototype object itself: a value that is truthy and has
  neither a \<open>text\<close> nor a \<open>class\<close> property.
\<close>

definition Object_prototype_names :: "jsstring list" where
  "Object_prototype_names =
     [ascii ''constructor'', ascii ''hasOwnProperty'', ascii ''isPrototypeOf'',
      ascii ''propertyIsEnumerable'', ascii ''toLocaleString'', ascii ''toString'',
      ascii ''valueOf'', ascii ''__proto__'', ascii ''__defineGetter__'',
      ascii ''__defineSetter__'', ascii ''__lookupGetter__'', ascii ''__lookupSetter__'']"

datatype config_lookup =
    Entry jsstring jsstring
  | Inherited
  | Missing

definition statusConfig_get :: "jsstring \<Rightarrow> config_lookup" where
  "statusConfig_get status =
     (case map_of statusConfig status of
        Some (t, c) \<Rightarrow> Entry t c
      | None \<Rightarrow> if status \<in> set Object_prototype_names then Inherited else Missing)"

text \<open>
  \<^verbatim>\<open>updateStatus(status) {
    if (!this.indicator) return;
    const config = statusConfig[status];
    if (config) {
      this.indicator.textContent = config.text;
      this.indicator.className = `status-indicator ${config.class}`; } }\<close>

  With an inherited member for \<open>config\<close>, \<open>config.text\<close> and \<open>config.class\<close> are \<open>undefined\<close>:
  assigning \<open>undefined\<close> to \<open>textContent\<close> empties the element, and the template gives the
  class \<open>status-indicator undefined\<close>.
\<close>

definition updateStatus :: "jsstring \<Rightarrow> StatusManager \<Rightarrow> StatusManager" where
  "updateStatus status sm =
     (case indicator sm of
        None \<Rightarrow> sm
      | Some el \<Rightarrow>
          (case statusConfig_get status of
             Entry t c \<Rightarrow>
               sm\<lparr>indicator := Some (el\<lparr>textContent := t,
                                         className := ascii ''status-indicator '' @ c\<rparr>)\<rparr>
           | Inherited \<Rightarrow>
               sm\<lparr>indicator := Some (el\<lparr>textContent := [],
                                         className := ascii ''status-indicator '' @ ascii ''undefined''\<rparr>)\<rparr>
           | Missing \<Rightarrow> sm))"

section \<open>apiService.js\<close>

text \<open>
  The network is the program's environment. A request is answered by a rejection of
  \<open>fetch\<close> (a network failure, or the abort that the five-second timer of the health check
  triggers) or by a response: its status and what \<open>response.json()\<close> gives, a parsed value
  or an exception. The environment decides the answer from the number of requests made
  before and the request. The world records, in order, each request sent and each wait on
  a timer, with its length in milliseconds. Console output is not modelled.
\<close>

record request =
  req_method :: jsstring
  req_url :: jsstring
  req_headers :: "(jsstring \<times> jsstring) list"
  req_body :: "jsvalue option"

datatype fetch_result =
    Rejected js_error
  | Response nat "js_error + jsvalue"

datatype event =
    Fetch request
  | Wait nat

type_synonym network = "nat \<Rightarrow> request \<Rightarrow> fetch_result"

record world =
  trace :: "event list"

fun is_Fetch :: "event \<Rightarrow> bool" where
  "is_Fetch (Fetch r) = True"
| "is_Fetch (Wait d) = False"

definition fetch :: "network \<Rightarrow> request \<Rightarrow> world \<Rightarrow> fetch_result \<times> world" where
  "fetch net req w = (net (length (filter is_Fetch (trace w))) req, w\<lparr>trace := trace w @ [Fetch req]\<rparr>)"

definition wait :: "nat \<Rightarrow> world \<Rightarrow> world" where
  "wait ms w = w\<lparr>trace := trace w @ [Wait ms]\<rparr>"

text \<open>\<open>response.ok\<close>: the status is in the range 200 to 299.\<close>

definition ok :: "nat \<Rightarrow> bool" where
  "ok status \<longleftrightarrow> 200 \<le> status \<and> status \<le> 299"

definition health_request :: request where
  "health_request =
     \<lparr>req_method = ascii ''GET'', req_url = API_BASE_URL @ ascii ''/health'',
      req_headers = [], req_body = None\<rparr>"

text \<open>
  The body of the \<open>try\<close> in \<open>checkHealth\<close>: the request, the test of \<open>response.ok\<close> (which
  throws \<open>new Error(`HTTP ${response.status}`)\<close>), and \<open>return await response.json()\<close>, whose
  exception is caught by the same \<open>catch\<close>. \<open>checkHealth_outcome\<close> is what the block makes of
  the answer to its request: the value it returns or the exception it raises.
\<close>

definition checkHealth_outcome :: "fetch_result \<Rightarrow> js_error + jsvalue" where
  "checkHealth_outcome r =
     (case r of
        Rejected e \<Rightarrow> Inl e
      | Response status body \<Rightarrow>
          if \<not> ok status then Inl (Error (ascii ''HTTP '' @ decimal status)) else body)"

definition checkHealth_try :: "network \<Rightarrow> world \<Rightarrow> (js_error + jsvalue) \<times> world" where
  "checkHealth_try net w =
     (let (r, w1) = fetch net health_request w in (checkHealth_outcome r, w1))"

text \<open>
  \<^verbatim>\<open>checkHealth: async (retries = Config.RETRY_ATTEMPTS) => {
    try { ... } catch (error) {
      ...
      if (retries > 0) {
        await new Promise(resolve => setTimeout(resolve, Config.RETRY_DELAY));
        return ApiService.checkHealth(retries - 1); }
      throw error; } }\<close>
\<close>

function checkHealth :: "network \<Rightarrow> int \<Rightarrow> world \<Rightarrow> (js_error + jsvalue) \<times> world" where
  "checkHealth net retries w =
     (case checkHealth_try net w of
        (Inr health, w1) \<Rightarrow> (Inr health, w1)
      | (Inl err, w1) \<Rightarrow>
          if retries > 0 then checkHealth net (retries - 1) (wait RETRY_DELAY w1)
          else (Inl err, w1))"
  by pat_completeness auto
termination
  by (relation "measure (\<lambda>(net, retries, w). nat retries)") auto

declare checkHealth.simps [simp del]

text \<open>
  \<^verbatim>\<open>sendQuery: async (query) => {
    const response = await fetch(`${Config.API_BASE_URL}/ask`, { method: 'POST',
        headers: { 'Content-Type': 'application/json' },
        body: JSON.stringify({ user_query: query }) });
    if (!response.ok) { throw new Error(`HTTP error! status: ${response.status}`); }
    const data = await response.json();
    if (data.error) { throw new Error(data.error); }
    return data; }\<close>

  The body of the request is the JSON text of the object \<open>{user_query: query}\<close>; the model
  keeps the object.  \<open>new Error(data.error)\<close> converts its argument by ToString, whose
  exception, if any, is the one raised.
\<close>

definition ask_request :: "jsstring \<Rightarrow> request" where
  "ask_request query =
     \<lparr>req_method = ascii ''POST'', req_url = API_BASE_URL @ ascii ''/ask'',
      req_headers = [(ascii ''Content-Type'', ascii ''application/json'')],
      req_body = Some (JObj [(ascii ''user_query'', JStr query)])\<rparr>"

definition sendQuery :: "host \<Rightarrow> network \<Rightarrow> jsstring \<Rightarrow> world \<Rightarrow> (js_error + jsvalue) \<times> world" where
  "sendQuery h net query w =
     (let (r, w1) = fetch net (ask_request query) w in
      (case r of
         Rejected e \<Rightarrow> Inl e
       | Response status body \<Rightarrow>
           if \<not> ok status then Inl (Error (ascii ''HTTP error! status: '' @ decimal status))
           else
             (case body of
                Inl e \<Rightarrow> Inl e
              | Inr data \<Rightarrow>
                  (case get data (ascii ''error'') of
                     Inl e \<Rightarrow> Inl e
                   | Inr err \<Rightarrow>
                       if truthy err then
                         (case ToString h err of
                            Inl e \<Rightarrow> Inl e
                          | Inr msg \<Rightarrow> Inl (Error msg))
                       else Inr data)),
       w1))"

text \<open>
  One cycle of the status manager's own \<open>checkHealth\<close>: \<open>checking\<close>, then the health check
  with the default retry budget, then \<open>online\<close> or \<open>offline\<close>.
\<close>

definition StatusManager_checkHealth ::
    "network \<Rightarrow> StatusManager \<Rightarrow> world \<Rightarrow> StatusManager \<times> world" where
  "StatusManager_checkHealth net sm w =
     (let sm1 = updateStatus (ascii ''checking'') sm in
      (case checkHealth net RETRY_ATTEMPTS w of
         (Inr health, w1) \<Rightarrow> (updateStatus (ascii ''online'') sm1, w1)
       | (Inl err, w1) \<Rightarrow> (updateStatus (ascii ''offline'') sm1, w1)))"

section \<open>chatModule.js\<close>

text \<open>
  The chat module holds the message container (of which the model keeps the message
  elements appended to it), the input field, the send button and the flag \<open>isLoading\<close>.
  Each of the three elements is \<open>null\<close> when the page has none. The scroll position of the
  container depends on layout and is not modelled.
\<close>

record input_element =
  input_value :: jsstring
  input_disabled :: bool
  input_focused :: bool

record button_element =
  button_innerHTML :: jsstring
  button_disabled :: bool

record ChatModule =
  container :: "element list option"
  input :: "input_element option"
  sendButton :: "button_element option"
  isLoading :: bool

text \<open>The three modules of the page.\<close>

record app =
  chat :: ChatModule
  results :: ResultsModule
  status :: StatusManager

text \<open>
  \<open>String.prototype.trim\<close> removes white space and line terminators from both ends: U+0009
  to U+000D, U+0020, U+00A0, U+1680, U+2000 to U+200A, U+2028, U+2029, U+202F, U+205F,
  U+3000 and U+FEFF.
\<close>

definition isWhiteSpace :: "16 word \<Rightarrow> bool" where
  "isWhiteSpace c \<longleftrightarrow>
     (0x09 \<le> c \<and> c \<le> 0x0D) \<or> c = 0x20 \<or> c = 0xA0 \<or> c = 0x1680
     \<or> (0x2000 \<le> c \<and> c \<le> 0x200A) \<or> c = 0x2028 \<or> c = 0x2029 \<or> c = 0x202F
     \<or> c = 0x205F \<or> c = 0x3000 \<or> c = 0xFEFF"

definition trim :: "jsstring \<Rightarrow> jsstring" where
  "trim s = rev (dropWhile isWhiteSpace (rev (dropWhile isWhiteSpace s)))"

text \<open>
  \<^verbatim>\<open>addMessage(content, sender) {
    if (!this.container) return;
    const messageDiv = Utils.createElement('div', `message ${sender}-message`);
    messageDiv.textContent = content;
    this.container.appendChild(messageDiv); ... }\<close>
\<close>

definition addMessage :: "jsstring \<Rightarrow> jsstring \<Rightarrow> ChatModule \<Rightarrow> ChatModule" where
  "addMessage content sender cm =
     (case container cm of
        None \<Rightarrow> cm
      | Some children \<Rightarrow>
          let messageDiv =
            \<lparr>textContent = content, className = ascii ''message '' @ sender @ ascii ''-message''\<rparr>
          in cm\<lparr>container := Some (children @ [messageDiv])\<rparr>)"

text \<open>
  \<^verbatim>\<open>setLoading(loading) {
    this.isLoading = loading;
    if (this.sendButton && this.input) {
      if (loading) { this.sendButton.innerHTML = '<div class="loading"></div>';
                     this.sendButton.disabled = true; this.input.disabled = true; }
      else { this.sendButton.innerHTML = 'Hantar'; this.sendButton.disabled = false;
             this.input.disabled = false; this.input.focus(); } } }\<close>
\<close>

definition setLoading :: "bool \<Rightarrow> ChatModule \<Rightarrow> ChatModule" where
  \<open>setLoading loading cm =
     (let cm1 = cm\<lparr>isLoading := loading\<rparr> in
      case (sendButton cm1, input cm1) of
        (Some button, Some inp) \<Rightarrow>
          if loading then
            cm1\<lparr>sendButton := Some (button\<lparr>button_innerHTML := ascii ''<div class="loading"></div>'',
                                             button_disabled := True\<rparr>),
                input := Some (inp\<lparr>input_disabled := True\<rparr>)\<rparr>
          else
            cm1\<lparr>sendButton := Some (button\<lparr>button_innerHTML := ascii ''Hantar'',
                                             button_disabled := False\<rparr>),
                input := Some (inp\<lparr>input_disabled := False, input_focused := True\<rparr>)\<rparr>
      | _ \<Rightarrow> cm1)\<close>

text \<open>
  \<open>sendMessage\<close> is asynchronous: it runs up to \<open>await ApiService.sendQuery(message)\<close>, and
  when the query has settled it runs the rest, on the state the page then has. The model
  has one function for each part and one for the whole.

  \<^verbatim>\<open>async sendMessage() {
    if (this.isLoading) return;
    const message = this.input.value.trim();
    if (!message) return;
    this.addMessage(message, 'user');
    this.input.value = '';
    this.setLoading(true);
    try {
      const data = await ApiService.sendQuery(message);
      ResultsModule.displayResults(data);
      const botMessage = 'Saya telah menganalisis data ...';
      this.addMessage(botMessage, 'bot');
    } catch (error) {
      const errorMessage = `Maaf, terdapat ralat: ${error.message}`;
      this.addMessage(errorMessage, 'bot');
      StatusManager.updateStatus('offline');
    } finally {
      this.setLoading(false); } }\<close>

  The first part ends in one of three ways: it returns (the promise is fulfilled), it
  throws (reading \<open>value\<close> of an input that is \<open>null\<close>; the promise is rejected), or it calls
  \<open>sendQuery\<close> with the message and waits.
\<close>

datatype send_step =
    Returned
  | Threw js_error
  | Awaiting jsstring

definition sendMessage_begin :: "app \<Rightarrow> send_step \<times> app" where
  "sendMessage_begin s =
     (if isLoading (chat s) then (Returned, s)
      else
        (case input (chat s) of
           None \<Rightarrow> (Threw (TypeError (ReadOfNullish JNull (ascii ''value''))), s)
         | Some inp \<Rightarrow>
             let message = trim (input_value inp) in
             if message = [] then (Returned, s)
             else
               let cm1 = addMessage message (ascii ''user'') (chat s);
                   cm2 = cm1\<lparr>input := Some (inp\<lparr>input_value := []\<rparr>)\<rparr>;
                   cm3 = setLoading True cm2
               in (Awaiting message, s\<lparr>chat := cm3\<rparr>)))"

definition botMessage :: jsstring where
  "botMessage = ascii ''Saya telah menganalisis data berdasarkan pertanyaan anda. Lihat keputusan di sebelah kanan.''"

text \<open>The \<open>catch\<close> block.\<close>

definition sendMessage_catch :: "host \<Rightarrow> js_error \<Rightarrow> app \<Rightarrow> app" where
  "sendMessage_catch h err s =
     (let errorMessage = ascii ''Maaf, terdapat ralat: '' @ error_message h err in
      s\<lparr>chat := addMessage errorMessage (ascii ''bot'') (chat s),
        status := updateStatus (ascii ''offline'') (status s)\<rparr>)"

text \<open>
  The rest of \<open>sendMessage\<close>, from the moment the query has settled with \<open>outcome\<close>: the
  remainder of the \<open>try\<close> or the \<open>catch\<close>, then the \<open>finally\<close>.
\<close>

definition sendMessage_resume :: "host \<Rightarrow> js_error + jsvalue \<Rightarrow> app \<Rightarrow> app" where
  "sendMessage_resume h outcome s =
     (let s1 =
        (case outcome of
           Inl err \<Rightarrow> sendMessage_catch h err s
         | Inr data \<Rightarrow>
             (case displayResults h data (results s) of
                Inl err \<Rightarrow> sendMessage_catch h err s
              | Inr rm \<Rightarrow>
                  s\<lparr>results := rm, chat := addMessage botMessage (ascii ''bot'') (chat s)\<rparr>))
      in s1\<lparr>chat := setLoading False (chat s1)\<rparr>)"

text \<open>
  The whole of \<open>sendMessage\<close> with nothing else running in between. The result is the
  exception with which the promise is rejected, if any.
\<close>

definition sendMessage :: "host \<Rightarrow> network \<Rightarrow> app \<Rightarrow> world \<Rightarrow> js_error option \<times> app \<times> world" where
  "sendMessage h net s w =
     (case sendMessage_begin s of
        (Returned, s1) \<Rightarrow> (None, s1, w)
      | (Threw err, s1) \<Rightarrow> (Some err, s1, w)
      | (Awaiting message, s1) \<Rightarrow>
          let (outcome, w1) = sendQuery h net message w
          in (None, sendMessage_resume h outcome s1, w1))"

text \<open>
  \<^verbatim>\<open>handleKeyPress(event) { if (event.key === 'Enter' && !this.isLoading) { this.sendMessage(); } }\<close>
\<close>

definition handleKeyPress :: "host \<Rightarrow> network \<Rightarrow> jsstring \<Rightarrow> app \<Rightarrow> world \<Rightarrow> app \<times> world" where
  "handleKeyPress h net key s w =
     (if key = ascii ''Enter'' \<and> \<not> isLoading (chat s)
      then (case sendMessage h net s w of (r, s1, w1) \<Rightarrow> (s1, w1))
      else (s, w))"

section \<open>Notions of the specification\<close>

text \<open>
  The words of a key, for the statement about \<open>formatKey\<close>: a word is a maximal run of
  ASCII letters and digits, and position \<open>i\<close> starts a word when it holds a letter or digit
  and the position before it does not.
\<close>

definition isAlnum :: "16 word \<Rightarrow> bool" where
  "isAlnum c \<longleftrightarrow> (0x41 \<le> c \<and> c \<le> 0x5A) \<or> (0x61 \<le> c \<and> c \<le> 0x7A) \<or> (0x30 \<le> c \<and> c \<le> 0x39)"

definition wordStart :: "jsstring \<Rightarrow> nat \<Rightarrow> bool" where
  "wordStart key i \<longleftrightarrow> isAlnum (key ! i) \<and> (i = 0 \<or> \<not> isAlnum (key ! (i - 1)))"

text \<open>
  The search parameters as the specification words them: for every plan entry, in the
  plan's order, whose value is not the sentinel \<open>Any\<close>, the humanized key paired with the
  escaped value. Where a value cannot be escaped, there are no search parameters but the
  exception.
\<close>

fun spec_parameters :: "host \<Rightarrow> (jsstring \<times> jsvalue) list \<Rightarrow> js_error + (jsstring \<times> jsstring) list" where
  "spec_parameters h [] = Inr []"
| "spec_parameters h ((key, v) # plan) =
     (if v = JStr (ascii ''Any'') then spec_parameters h plan
      else
        (case escapeHtml h v of
           Inl e \<Rightarrow> Inl e
         | Inr escaped \<Rightarrow>
             (case spec_parameters h plan of
                Inl e \<Rightarrow> Inl e
              | Inr ps \<Rightarrow> Inr ((formatKey key, escaped) # ps))))"

text \<open>
  The values that are not objects: every value but an array and an object.
\<close>

definition primitive :: "jsvalue \<Rightarrow> bool" where
  "primitive v \<longleftrightarrow> (case v of JArr xs \<Rightarrow> False | JObj kvs \<Rightarrow> False | _ \<Rightarrow> True)"

text \<open>
  The events of a health check whose every attempt fails, with \<open>n\<close> retries: a request,
  then \<open>n\<close> times a wait of \<open>RETRY_DELAY\<close> followed by a request.
\<close>

fun retry_trace :: "nat \<Rightarrow> event list" where
  "retry_trace 0 = [Fetch health_request]"
| "retry_trace (Suc n) = Fetch health_request # Wait RETRY_DELAY # retry_trace n"

text \<open>The number of requests in a trace.\<close>

definition requests :: "event list \<Rightarrow> nat" where
  "requests evs = length (filter is_Fetch evs)"

section \<open>States for concrete runs\<close>

text \<open>
  A page with all its elements, nothing in the chat, the given text in the input field
  and the given value of the busy flag; and a world in which nothing has happened.
\<close>

definition page :: "jsstring \<Rightarrow> bool \<Rightarrow> app" where
  "page text busy =
     \<lparr>chat = \<lparr>container = Some [],
              input = Some \<lparr>input_value = text, input_disabled = busy, input_focused = \<not> busy\<rparr>,
              sendButton = Some \<lparr>button_innerHTML = ascii ''Hantar'', button_disabled = busy\<rparr>,
              isLoading = busy\<rparr>,
      results = \<lparr>results_container = Some []\<rparr>,
      status = \<lparr>indicator = Some \<lparr>textContent = [], className = ascii ''status-indicator''\<rparr>\<rparr>\<rparr>"

definition world0 :: world where
  "world0 = \<lparr>trace = []\<rparr>"

text \<open>
  A host for concrete runs: a finite number is written by the decimal digits of its
  integer part, in the number format too; every type error has the same text; no string
  counts as a positive number.
\<close>

definition plain_number :: "number \<Rightarrow> jsstring" where
  "plain_number n =
     (case n of
        Finite r \<Rightarrow> (if r < 0 then ascii ''-'' else []) @ decimal (nat \<lfloor>\<bar>r\<bar>\<rfloor>)
      | NegZero \<Rightarrow> ascii ''0''
      | PosInfinity \<Rightarrow> ascii ''Infinity''
      | NegInfinity \<Rightarrow> ascii ''-Infinity'')"

definition plain_host :: host where
  "plain_host =
     \<lparr>intl_format = (\<lambda>v. case v of JNum n \<Rightarrow> plain_number n | _ \<Rightarrow> ascii ''NaN''),
      number_text = plain_number,
      type_error_text = (\<lambda>f. ascii ''TypeError''),
      positive_string = (\<lambda>s. False)\<rparr>"

section \<open>Properties of utils.js\<close>

lemma escapeHtml_JStr: "escapeHtml h (JStr s) = Inr (concat (map escapeText s))"
  by (cases s) (simp_all add: escapeHtml_def innerHTML_def set_textContent_def)

lemma escapeText_no_angle: "0x3C \<notin> set (escapeText c) \<and> 0x3E \<notin> set (escapeText c)"
  by (simp add: escapeText_def ascii_def)

lemma escapeText_length: "1 \<le> length (escapeText c)"
  by (simp add: escapeText_def ascii_def)

lemma escapeText_plain: "c \<notin> {0x26, 0xA0, 0x3C, 0x3E} \<Longrightarrow> escapeText c = [c]"
  by (simp add: escapeText_def)

lemma escapeText_special: "c \<in> {0x26, 0xA0, 0x3C, 0x3E} \<Longrightarrow> 0x26 \<in> set (escapeText c)"
  by (auto simp: escapeText_def ascii_def)

lemma escape_length: "length s \<le> length (concat (map escapeText s))"
proof (induction s)
  case Nil
  show ?case by simp
next
  case (Cons c cs)
  have "1 \<le> length (escapeText c)" by (rule escapeText_length)
  with Cons show ?case by simp
qed

lemma escape_plain: "set s \<inter> {0x26, 0xA0, 0x3C, 0x3E} = {} \<Longrightarrow> concat (map escapeText s) = s"
  by (induction s) (simp_all add: escapeText_plain)

lemma escape_grows:
  "0x26 \<in> set s \<Longrightarrow> length s < length (concat (map escapeText s))"
proof (induction s)
  case Nil
  then show ?case by simp
next
  case (Cons c cs)
  show ?case
  proof (cases "c = 0x26")
    case True
    have "length cs \<le> length (concat (map escapeText cs))" by (rule escape_length)
    moreover from True have "length (escapeText c) = 5" by (simp add: escapeText_def ascii_def)
    ultimately show ?thesis by simp
  next
    case False
    with Cons.prems have "0x26 \<in> set cs" by simp
    then have "length cs < length (concat (map escapeText cs))" by (rule Cons.IH)
    moreover have "1 \<le> length (escapeText c)" by (rule escapeText_length)
    ultimately show ?thesis by simp
  qed
qed

lemma escape_has_amp:
  "set s \<inter> {0x26, 0xA0, 0x3C, 0x3E} \<noteq> {} \<Longrightarrow> 0x26 \<in> set (concat (map escapeText s))"
proof -
  assume "set s \<inter> {0x26, 0xA0, 0x3C, 0x3E} \<noteq> {}"
  then obtain c where c: "c \<in> set s" "c \<in> {0x26, 0xA0, 0x3C, 0x3E}" by blast
  from c(2) have "0x26 \<in> set (escapeText c)" by (rule escapeText_special)
  with c(1) show ?thesis by auto
qed


subsection \<open>escapeHtml\<close>

text \<open>
  C1 (as amended). For every input string, \<open>escapeHtml\<close> returns (it does not raise) the
  string in which each \<open>&\<close>, \<open><\<close> and \<open>>\<close> (and each U+00A0) is replaced by its entity and
  every other character, the double quote (U+0022) and the apostrophe (U+0027) included,
  is copied: the result has no literal \<open><\<close> or \<open>>\<close>, the function distributes over
  concatenation, the four escaped characters give \<open>&amp;\<close>, \<open>&lt;\<close>, \<open>&gt;\<close>, \<open>&nbsp;\<close>, every
  other character gives itself, so do both quote characters, and \<open>escapeHtml("<script>")\<close>
  is \<open>&lt;script&gt;\<close>.
\<close>

theorem escapeHtml_escapes_markup:
  "(\<exists>out. escapeHtml h (JStr s) = Inr out \<and> 0x3C \<notin> set out \<and> 0x3E \<notin> set out)
   \<and> (\<exists>a b. escapeHtml h (JStr s) = Inr a \<and> escapeHtml h (JStr t) = Inr b
          \<and> escapeHtml h (JStr (s @ t)) = Inr (a @ b))
   \<and> escapeHtml h (JStr [0x26]) = Inr (ascii ''&amp;'')
   \<and> escapeHtml h (JStr [0x3C]) = Inr (ascii ''&lt;'')
   \<and> escapeHtml h (JStr [0x3E]) = Inr (ascii ''&gt;'')
   \<and> escapeHtml h (JStr [0xA0]) = Inr (ascii ''&nbsp;'')
   \<and> (\<forall>c. c \<notin> {0x26, 0xA0, 0x3C, 0x3E} \<longrightarrow> escapeHtml h (JStr [c]) = Inr [c])
   \<and> escapeHtml h (JStr [0x22]) = Inr [0x22]
   \<and> escapeHtml h (JStr [0x27]) = Inr [0x27]
   \<and> escapeHtml h (JStr (ascii ''<script>'')) = Inr (ascii ''&lt;script&gt;'')"
proof -
  have other: "\<forall>c. c \<notin> {0x26, 0xA0, 0x3C, 0x3E} \<longrightarrow> escapeHtml h (JStr [c]) = Inr [c]"
    by (simp add: escapeHtml_JStr escapeText_plain)
  have angle: "\<exists>out. escapeHtml h (JStr s) = Inr out \<and> 0x3C \<notin> set out \<and> 0x3E \<notin> set out"
    using escapeText_no_angle by (auto simp: escapeHtml_JStr)
  have app: "\<exists>a b. escapeHtml h (JStr s) = Inr a \<and> escapeHtml h (JStr t) = Inr b
          \<and> escapeHtml h (JStr (s @ t)) = Inr (a @ b)"
    by (simp add: escapeHtml_JStr)
  have chars: "escapeHtml h (JStr [0x26]) = Inr (ascii ''&amp;'')"
    "escapeHtml h (JStr [0x3C]) = Inr (ascii ''&lt;'')"
    "escapeHtml h (JStr [0x3E]) = Inr (ascii ''&gt;'')"
    "escapeHtml h (JStr [0xA0]) = Inr (ascii ''&nbsp;'')"
    "escapeHtml h (JStr [0x22]) = Inr [0x22]"
    "escapeHtml h (JStr [0x27]) = Inr [0x27]"
    by (simp_all add: escapeHtml_JStr escapeText_def)
  have script: "escapeHtml h (JStr (ascii ''<script>'')) = Inr (ascii ''&lt;script&gt;'')"
    by (simp add: escapeHtml_JStr escapeText_def ascii_def)
  from angle app chars other script show ?thesis by blast
qed

theorem escapeHtml_escapes_markup_witness:
  "escapeHtml plain_host (JStr (ascii ''A'')) = Inr (ascii ''A'')
   \<and> escapeHtml plain_host (JStr (ascii ''a<b'')) = Inr (ascii ''a'' @ ascii ''&lt;'' @ ascii ''b'')"
proof -
  have "(0x41 :: 16 word) \<notin> {0x26, 0xA0, 0x3C, 0x3E}" "(0x61 :: 16 word) \<notin> {0x26, 0xA0, 0x3C, 0x3E}"
    "(0x62 :: 16 word) \<notin> {0x26, 0xA0, 0x3C, 0x3E}"
    by simp_all
  with escapeHtml_escapes_markup [of plain_host "[0x61]" "[0x3C, 0x62]"]
    escapeHtml_escapes_markup [of plain_host "[0x3C]" "[0x62]"]
  have "escapeHtml plain_host (JStr [0x41]) = Inr [0x41]"
    and "escapeHtml plain_host (JStr [0x61, 0x3C, 0x62]) = Inr ([0x61] @ ascii ''&lt;'' @ [0x62])"
    by auto
  then show ?thesis by (simp add: ascii_def)
qed

text \<open>
  C1 as stated fails: \<open>escapeHtml\<close> returns the two quote characters as they are, so not
  every occurrence of the five characters is replaced.
\<close>

theorem escapeHtml_quotes_counterexample:
  "escapeHtml plain_host (JStr [0x22, 0x27]) = Inr [0x22, 0x27]"
  by (simp add: escapeHtml_JStr escapeText_def)

text \<open>
  C5 (as amended). \<open>escapeHtml\<close> escapes once per call and does so again on text that is
  already escaped: applied to its own result it returns that result unchanged exactly
  when the original string holds none of \<open>&\<close>, \<open><\<close>, \<open>>\<close>, U+00A0 (the strings it does not
  change at all).
\<close>

theorem escapeHtml_twice_iff:
  "(\<exists>once. escapeHtml h (JStr s) = Inr once \<and> escapeHtml h (JStr once) = Inr once)
     \<longleftrightarrow> set s \<inter> {0x26, 0xA0, 0x3C, 0x3E} = {}"
proof
  assume "\<exists>once. escapeHtml h (JStr s) = Inr once \<and> escapeHtml h (JStr once) = Inr once"
  then have same: "concat (map escapeText (concat (map escapeText s))) = concat (map escapeText s)"
    by (auto simp: escapeHtml_JStr)
  show "set s \<inter> {0x26, 0xA0, 0x3C, 0x3E} = {}"
  proof (rule ccontr)
    assume "set s \<inter> {0x26, 0xA0, 0x3C, 0x3E} \<noteq> {}"
    then have "0x26 \<in> set (concat (map escapeText s))" by (rule escape_has_amp)
    then have "length (concat (map escapeText s))
        < length (concat (map escapeText (concat (map escapeText s))))"
      by (rule escape_grows)
    with same show False by simp
  qed
next
  assume "set s \<inter> {0x26, 0xA0, 0x3C, 0x3E} = {}"
  then have "concat (map escapeText s) = s" by (rule escape_plain)
  then show "\<exists>once. escapeHtml h (JStr s) = Inr once \<and> escapeHtml h (JStr once) = Inr once"
    by (simp add: escapeHtml_JStr)
qed

theorem escapeHtml_twice_iff_witness:
  "(\<exists>once. escapeHtml plain_host (JStr (ascii ''Male'')) = Inr once
       \<and> escapeHtml plain_host (JStr once) = Inr once)
   \<and> \<not> (\<exists>once. escapeHtml plain_host (JStr (ascii ''a<b'')) = Inr once
       \<and> escapeHtml plain_host (JStr once) = Inr once)"
  using escapeHtml_twice_iff [of plain_host "ascii ''Male''"]
    escapeHtml_twice_iff [of plain_host "ascii ''a<b''"]
  by (simp add: ascii_def)

text \<open>
  C5 as stated fails: \<open>&amp;\<close> is the result of \<open>escapeHtml("&")\<close>, and \<open>escapeHtml("&amp;")\<close>
  is \<open>&amp;amp;\<close>, not \<open>&amp;\<close>.
\<close>

theorem escapeHtml_idempotent_counterexample:
  "escapeHtml plain_host (JStr (ascii ''&'')) = Inr (ascii ''&amp;'')
   \<and> escapeHtml plain_host (JStr (ascii ''&amp;'')) = Inr (ascii ''&amp;amp;'')
   \<and> escapeHtml plain_host (JStr (ascii ''&amp;'')) \<noteq> Inr (ascii ''&amp;'')"
  by (simp add: escapeHtml_JStr escapeText_def ascii_def)

subsection \<open>formatKey\<close>

lemma replace_word_starts_length: "length (replace_word_starts prev cs) = length cs"
  by (induction cs arbitrary: prev) simp_all

lemma replace_word_starts_nth:
  "i < length cs \<Longrightarrow>
   replace_word_starts prev cs ! i =
     (if isWordChar (cs ! i) \<and> \<not> (if i = 0 then prev else isWordChar (cs ! (i - 1)))
      then toUpperCase_w (cs ! i) else cs ! i)"
proof (induction cs arbitrary: prev i)
  case Nil
  then show ?case by simp
next
  case (Cons c cs)
  show ?case
  proof (cases i)
    case 0
    then show ?thesis by simp
  next
    case (Suc j)
    with Cons.prems have "j < length cs" by simp
    from Cons.IH [OF this, of "isWordChar c"] Suc show ?thesis
      by (cases j) simp_all
  qed
qed

lemma isWordChar_underscore_replaced:
  "isWordChar (if c = 0x5F then 0x20 else c) = isAlnum c"
  by (auto simp: isWordChar_def isAlnum_def)

lemma isAlnum_not_underscore: "isAlnum c \<Longrightarrow> c \<noteq> 0x5F"
  by (auto simp: isAlnum_def)

text \<open>
  C8. \<open>formatKey\<close> keeps the length of the key; each underscore becomes a space; the
  first character of each word (a maximal run of ASCII letters and digits) is replaced by
  its upper-case form; every other character is unchanged. \<open>formatKey("age_group")\<close> is
  \<open>Age Group\<close> and \<open>formatKey("state")\<close> is \<open>State\<close>.
\<close>

theorem formatKey_words:
  "length (formatKey key) = length key
   \<and> (\<forall>i < length key. formatKey key ! i =
        (if key ! i = 0x5F then 0x20
         else if wordStart key i then toUpperCase_w (key ! i)
         else key ! i))
   \<and> formatKey (ascii ''age_group'') = ascii ''Age Group''
   \<and> formatKey (ascii ''state'') = ascii ''State''"
proof -
  have len: "length (formatKey key) = length key"
    by (simp add: formatKey_def replace_underscores_def replace_word_starts_length)
  have nth: "formatKey key ! i =
        (if key ! i = 0x5F then 0x20
         else if wordStart key i then toUpperCase_w (key ! i)
         else key ! i)" if i: "i < length key" for i
  proof -
    let ?r = "replace_underscores key"
    have li: "i < length ?r" using i by (simp add: replace_underscores_def)
    have ri: "?r ! i = (if key ! i = 0x5F then 0x20 else key ! i)"
      using i by (simp add: replace_underscores_def)
    have wi: "isWordChar (?r ! i) = isAlnum (key ! i)"
      unfolding ri by (rule isWordChar_underscore_replaced)
    have wp: "isWordChar (?r ! (i - 1)) = isAlnum (key ! (i - 1))"
    proof -
      have "i - 1 < length key" using i by simp
      then have "?r ! (i - 1) = (if key ! (i - 1) = 0x5F then 0x20 else key ! (i - 1))"
        by (simp add: replace_underscores_def)
      then show ?thesis by (simp only: isWordChar_underscore_replaced)
    qed
    have "formatKey key ! i =
        (if isWordChar (?r ! i) \<and> \<not> (if i = 0 then False else isWordChar (?r ! (i - 1)))
         then toUpperCase_w (?r ! i) else ?r ! i)"
      unfolding formatKey_def by (rule replace_word_starts_nth [OF li])
    also have "\<dots> = (if wordStart key i then toUpperCase_w (?r ! i) else ?r ! i)"
      unfolding wi wp by (auto simp: wordStart_def)
    also have "\<dots> = (if key ! i = 0x5F then 0x20
         else if wordStart key i then toUpperCase_w (key ! i)
         else key ! i)"
      using isAlnum_not_underscore [of "key ! i"] by (auto simp: ri wordStart_def)
    finally show ?thesis .
  qed
  have ex1: "formatKey (ascii ''age_group'') = ascii ''Age Group''"
    by (simp add: formatKey_def replace_underscores_def ascii_def isWordChar_def toUpperCase_w_def)
  have ex2: "formatKey (ascii ''state'') = ascii ''State''"
    by (simp add: formatKey_def replace_underscores_def ascii_def isWordChar_def toUpperCase_w_def)
  from len nth ex1 ex2 show ?thesis by blast
qed

theorem formatKey_words_witness:
  "formatKey (ascii ''user_name'') ! 5 = 0x4E \<and> formatKey (ascii ''user_name'') ! 4 = 0x20
   \<and> formatKey (ascii ''user_name'') ! 6 = 0x61"
proof -
  have "(5::nat) < length (ascii ''user_name'')" "(4::nat) < length (ascii ''user_name'')"
    "(6::nat) < length (ascii ''user_name'')"
    by (simp_all add: ascii_def)
  with formatKey_words [of "ascii ''user_name''"]
  have "formatKey (ascii ''user_name'') ! 5 =
        (if ascii ''user_name'' ! 5 = 0x5F then 0x20
         else if wordStart (ascii ''user_name'') 5 then toUpperCase_w (ascii ''user_name'' ! 5)
         else ascii ''user_name'' ! 5)"
   and "formatKey (ascii ''user_name'') ! 4 =
        (if ascii ''user_name'' ! 4 = 0x5F then 0x20
         else if wordStart (ascii ''user_name'') 4 then toUpperCase_w (ascii ''user_name'' ! 4)
         else ascii ''user_name'' ! 4)"
   and "formatKey (ascii ''user_name'') ! 6 =
        (if ascii ''user_name'' ! 6 = 0x5F then 0x20
         else if wordStart (ascii ''user_name'') 6 then toUpperCase_w (ascii ''user_name'' ! 6)
         else ascii ''user_name'' ! 6)"
    by blast+
  then show ?thesis
    by (simp add: ascii_def wordStart_def isAlnum_def toUpperCase_w_def)
qed

section \<open>Properties of resultsModule.js\<close>

lemma join_empty: "join [] xs = concat xs"
  by (induction "[] :: jsstring" xs rule: join.induct) simp_all

lemma ToString_raises_TypeError:
  "ToString h v = Inl e \<Longrightarrow> \<exists>f. e = TypeError f"
  "ToString_elements h vs = Inl e \<Longrightarrow> \<exists>f. e = TypeError f"
  by (induction h v and h vs arbitrary: e and e rule: ToString_ToString_elements.induct)
     (auto split: sum.splits if_splits)

lemma ToPrimitive_raises_TypeError: "ToPrimitive h v = Inl e \<Longrightarrow> \<exists>f. e = TypeError f"
  using ToString_raises_TypeError(1) [of h v e]
  by (cases v) (auto simp: ToPrimitive_def split: sum.splits)

lemma formatNumber_raises_TypeError: "formatNumber h v = Inl e \<Longrightarrow> \<exists>f. e = TypeError f"
  using ToPrimitive_raises_TypeError [of h v e]
  by (auto simp: formatNumber_def split: sum.splits)

lemma escapeHtml_primitive:
  "primitive v \<Longrightarrow> \<exists>escaped. escapeHtml h v = Inr escaped"
  by (cases v) (simp_all add: primitive_def escapeHtml_def set_textContent_def)

lemma planItems_spec_parameters:
  "map_raising
     (\<lambda>(key, val). case escapeHtml h val of
                      Inl e \<Rightarrow> Inl e
                    | Inr escaped \<Rightarrow> Inr (planItem (formatKey key) escaped))
     (filter (\<lambda>(key, val). val \<noteq> JStr (ascii ''Any'')) plan)
   = (case spec_parameters h plan of
        Inl e \<Rightarrow> Inl e
      | Inr ps \<Rightarrow> Inr (map (\<lambda>(l, v). planItem l v) ps))"
  by (induction h plan rule: spec_parameters.induct) (simp_all split: sum.splits)

lemma spec_parameters_iff:
  "spec_parameters h plan = Inr ps \<longleftrightarrow>
     list_all2 (\<lambda>(key, v) (l, escaped). l = formatKey key \<and> escapeHtml h v = Inr escaped)
       (filter (\<lambda>(key, v). v \<noteq> JStr (ascii ''Any'')) plan) ps"
proof (induction h plan arbitrary: ps rule: spec_parameters.induct)
  case (1 h)
  show ?case by auto
next
  case (2 h key v plan)
  show ?case
  proof (cases "v = JStr (ascii ''Any'')")
    case True
    with "2.IH"(1) show ?thesis by simp
  next
    case False
    show ?thesis
    proof (cases "escapeHtml h v")
      case (Inl e)
      with False show ?thesis by (auto simp: list_all2_Cons1)
    next
      case (Inr escaped)
      show ?thesis
      proof (cases "spec_parameters h plan")
        case (Inl e)
        with False Inr "2.IH"(2) [OF False Inr] show ?thesis
          by (auto simp: list_all2_Cons1)
      next
        case qs: (Inr qs)
        with False Inr "2.IH"(2) [OF False Inr] show ?thesis
          by (auto simp: list_all2_Cons1)
      qed
    qed
  qed
qed

lemma spec_parameters_primitive:
  "list_all (\<lambda>(key, v). primitive v) plan \<Longrightarrow> \<exists>ps. spec_parameters h plan = Inr ps"
proof (induction plan)
  case Nil
  show ?case by simp
next
  case (Cons kv plan)
  obtain key v where kv: "kv = (key, v)" by (cases kv)
  from Cons.prems kv have "primitive v" by simp
  then obtain escaped where "escapeHtml h v = Inr escaped"
    using escapeHtml_primitive by blast
  moreover from Cons obtain ps where "spec_parameters h plan = Inr ps" by auto
  ultimately show ?case by (simp add: kv)
qed

text \<open>
  C6 (as amended). For every plan, \<open>generatePlanCard\<close> either raises the exception of the
  first displayed value that cannot be converted to text, or returns the card: its title
  block around one item for each entry whose value is not the string \<open>Any\<close>, in the order
  of the plan's entries, the item showing the humanized key, a colon and the escaped
  value. The listed search parameters are exactly these entries. A plan whose values are
  strings, numbers, booleans or \<open>null\<close> never raises. For the plan
  \<open>{gender: "Male", state: "Any"}\<close> the card has the one item of \<open>Gender:\<close> and \<open>Male\<close>, and
  none for \<open>state\<close>.
\<close>

theorem generatePlanCard_parameters:
  \<open>generatePlanCard h (JObj plan) =
     (case spec_parameters h plan of
        Inl e \<Rightarrow> Inl e
      | Inr ps \<Rightarrow>
          Inr (nl @ ascii ''            <div class="result-card">'' @
               nl @ ascii ''                <div class="result-title">'' @ [0xD83C, 0xDFAF] @ ascii '' Parameter Carian</div>'' @
               nl @ ascii ''                '' @
               concat (map (\<lambda>(label, escaped).
                   nl @ ascii ''                <div class="data-item">'' @
                   nl @ ascii ''                    <span>'' @ label @ ascii '':</span> <!-- Format the key for display -->'' @
                   nl @ ascii ''                    <span class="data-value">'' @ escaped @ ascii ''</span> <!-- Escape value for safety -->'' @
                   nl @ ascii ''                </div>'' @
                   nl @ ascii ''            '') ps) @
               nl @ ascii ''            </div>'' @
               nl @ ascii ''        ''))
   \<and> (spec_parameters h plan = Inr ps \<longleftrightarrow>
        list_all2 (\<lambda>(key, v) (label, escaped). label = formatKey key \<and> escapeHtml h v = Inr escaped)
          (filter (\<lambda>(key, v). v \<noteq> JStr (ascii ''Any'')) plan) ps)
   \<and> (list_all (\<lambda>(key, v). primitive v) plan \<longrightarrow> (\<exists>ps. spec_parameters h plan = Inr ps))
   \<and> generatePlanCard h (JObj [(ascii ''gender'', JStr (ascii ''Male'')), (ascii ''state'', JStr (ascii ''Any''))]) =
       Inr (nl @ ascii ''            <div class="result-card">'' @
            nl @ ascii ''                <div class="result-title">'' @ [0xD83C, 0xDFAF] @ ascii '' Parameter Carian</div>'' @
            nl @ ascii ''                '' @
            nl @ ascii ''                <div class="data-item">'' @
            nl @ ascii ''                    <span>Gender:</span> <!-- Format the key for display -->'' @
            nl @ ascii ''                    <span class="data-value">Male</span> <!-- Escape value for safety -->'' @
            nl @ ascii ''                </div>'' @
            nl @ ascii ''            '' @
            nl @ ascii ''            </div>'' @
            nl @ ascii ''        '')\<close>
proof -
  have card: \<open>generatePlanCard h (JObj plan) =
     (case spec_parameters h plan of
        Inl e \<Rightarrow> Inl e
      | Inr ps \<Rightarrow>
          Inr (nl @ ascii ''            <div class="result-card">'' @
               nl @ ascii ''                <div class="result-title">'' @ [0xD83C, 0xDFAF] @ ascii '' Parameter Carian</div>'' @
               nl @ ascii ''                '' @
               concat (map (\<lambda>(label, escaped).
                   nl @ ascii ''                <div class="data-item">'' @
                   nl @ ascii ''                    <span>'' @ label @ ascii '':</span> <!-- Format the key for display -->'' @
                   nl @ ascii ''                    <span class="data-value">'' @ escaped @ ascii ''</span> <!-- Escape value for safety -->'' @
                   nl @ ascii ''                </div>'' @
                   nl @ ascii ''            '') ps) @
               nl @ ascii ''            </div>'' @
               nl @ ascii ''        ''))\<close> for plan
    unfolding generatePlanCard_def planCard_def planItems_spec_parameters
    unfolding planItem_def
    by (simp add: Object_entries_def nullish_def join_empty split: sum.splits)
  have params: "spec_parameters h [(ascii ''gender'', JStr (ascii ''Male'')), (ascii ''state'', JStr (ascii ''Any''))]
      = Inr [(ascii ''Gender'', ascii ''Male'')]"
    by (simp add: formatKey_def replace_underscores_def ascii_def isWordChar_def toUpperCase_w_def
        escapeHtml_JStr escapeText_def)
  have example: \<open>generatePlanCard h (JObj [(ascii ''gender'', JStr (ascii ''Male'')), (ascii ''state'', JStr (ascii ''Any''))]) =
       Inr (nl @ ascii ''            <div class="result-card">'' @
            nl @ ascii ''                <div class="result-title">'' @ [0xD83C, 0xDFAF] @ ascii '' Parameter Carian</div>'' @
            nl @ ascii ''                '' @
            nl @ ascii ''                <div class="data-item">'' @
            nl @ ascii ''                    <span>Gender:</span> <!-- Format the key for display -->'' @
            nl @ ascii ''                    <span class="data-value">Male</span> <!-- Escape value for safety -->'' @
            nl @ ascii ''                </div>'' @
            nl @ ascii ''            '' @
            nl @ ascii ''            </div>'' @
            nl @ ascii ''        '')\<close>
    unfolding card params by (simp add: ascii_def)
  from card spec_parameters_iff spec_parameters_primitive example show ?thesis by blast
qed

theorem generatePlanCard_parameters_witness:
  "spec_parameters plain_host [(ascii ''gender'', JStr (ascii ''Male'')), (ascii ''state'', JStr (ascii ''Any''))]
     = Inr [(ascii ''Gender'', ascii ''Male'')]
   \<and> (\<exists>ps. spec_parameters plain_host [(ascii ''total'', JNum (Finite 3)), (ascii ''state'', JNull)] = Inr ps)"
proof -
  have "list_all2 (\<lambda>(key, v) (label, escaped). label = formatKey key \<and> escapeHtml plain_host v = Inr escaped)
          (filter (\<lambda>(key, v). v \<noteq> JStr (ascii ''Any''))
             [(ascii ''gender'', JStr (ascii ''Male'')), (ascii ''state'', JStr (ascii ''Any''))])
          [(ascii ''Gender'', ascii ''Male'')]"
    by (simp add: formatKey_def replace_underscores_def ascii_def isWordChar_def toUpperCase_w_def
        escapeHtml_JStr escapeText_def)
  moreover have "list_all (\<lambda>(key, v). primitive v) [(ascii ''total'', JNum (Finite 3)), (ascii ''state'', JNull)]"
    by (simp add: primitive_def)
  ultimately show ?thesis
    using generatePlanCard_parameters
      [of plain_host "[(ascii ''gender'', JStr (ascii ''Male'')), (ascii ''state'', JStr (ascii ''Any''))]"
          "[(ascii ''Gender'', ascii ''Male'')]"]
      generatePlanCard_parameters
      [of plain_host "[(ascii ''total'', JNum (Finite 3)), (ascii ''state'', JNull)]"]
    by blast
qed

text \<open>
  C6 as stated fails: for the plan \<open>{"a": {"toString": 1}}\<close> the entry \<open>a\<close> has a value other
  than \<open>Any\<close>, and \<open>generatePlanCard\<close> renders no block but raises, since the value cannot be
  converted to text.
\<close>

theorem generatePlanCard_unconvertible_counterexample:
  "generatePlanCard plain_host (JObj [(ascii ''a'', JObj [(ascii ''toString'', JNum (Finite 1))])])
     = Inl (TypeError (NotPrimitive (JObj [(ascii ''toString'', JNum (Finite 1))])))"
  by (simp add: generatePlanCard_def Object_entries_def nullish_def escapeHtml_def
      set_textContent_def ascii_def)

lemma get_JObj: "get (JObj kvs) p = Inr (case map_of kvs p of Some x \<Rightarrow> x | None \<Rightarrow> JUndefined)"
  by (simp add: get_def nullish_def own_property_def)

lemma get_nullish: "nullish v \<Longrightarrow> get v p = Inl (TypeError (ReadOfNullish v p))"
  by (simp add: get_def)

lemma get_not_nullish: "\<not> nullish v \<Longrightarrow> \<exists>x. get v p = Inr x"
  by (simp add: get_def)

lemma generatePlanCard_undefined:
  "generatePlanCard h JUndefined = Inl (TypeError (NotAnObject JUndefined))"
  by (simp add: generatePlanCard_def Object_entries_def nullish_def)

text \<open>
  C9. \<open>displayResults\<close> does nothing when the module has no output element or the
  response is absent (falsy). With an output element, a response object without an
  \<open>answer\<close> field makes it raise a type error for reading \<open>total\<close> of \<open>undefined\<close>, and a
  response object without a \<open>plan\<close> field makes it raise a type error as well (at the
  latest when the entries of the plan are enumerated).
\<close>

theorem displayResults_needs_plan_and_answer:
  "(results_container rm = None \<or> \<not> truthy data \<longrightarrow> displayResults h data rm = Inr rm)
   \<and> (results_container rm \<noteq> None \<and> map_of kvs (ascii ''answer'') = None \<longrightarrow>
        displayResults h (JObj kvs) rm = Inl (TypeError (ReadOfNullish JUndefined (ascii ''total''))))
   \<and> (results_container rm \<noteq> None \<and> map_of kvs (ascii ''plan'') = None \<longrightarrow>
        (\<exists>e. displayResults h (JObj kvs) rm = Inl (TypeError e)))"
proof -
  have guard: "displayResults h data rm = Inr rm" if "results_container rm = None \<or> \<not> truthy data"
    using that by (auto simp: displayResults_def)
  have no_answer: "displayResults h (JObj kvs) rm = Inl (TypeError (ReadOfNullish JUndefined (ascii ''total'')))"
    if "results_container rm \<noteq> None" "map_of kvs (ascii ''answer'') = None"
    using that by (simp add: displayResults_def get_JObj get_nullish nullish_def)
  have no_plan: "\<exists>e. displayResults h (JObj kvs) rm = Inl (TypeError e)"
    if c: "results_container rm \<noteq> None" and p: "map_of kvs (ascii ''plan'') = None"
  proof -
    let ?answer = "case map_of kvs (ascii ''answer'') of Some x \<Rightarrow> x | None \<Rightarrow> JUndefined"
    show ?thesis
    proof (cases "nullish ?answer")
      case True
      with c show ?thesis
        by (simp add: displayResults_def get_JObj get_nullish)
    next
      case False
      then obtain t where t: "get ?answer (ascii ''total'') = Inr t"
        using get_not_nullish by blast
      show ?thesis
      proof (cases "formatNumber h t")
        case (Inl e)
        then obtain f where "e = TypeError f"
          using formatNumber_raises_TypeError by blast
        with c p t Inl show ?thesis
          by (simp add: displayResults_def get_JObj generatePlanCard_undefined)
      next
        case (Inr formatted)
        with c p t show ?thesis
          by (simp add: displayResults_def get_JObj generatePlanCard_undefined)
      qed
    qed
  qed
  from guard no_answer no_plan show ?thesis by blast
qed

theorem displayResults_needs_plan_and_answer_witness:
  "displayResults plain_host JNull \<lparr>results_container = Some []\<rparr>
     = Inr \<lparr>results_container = Some []\<rparr>
   \<and> displayResults plain_host (JObj [(ascii ''plan'', JObj [])]) \<lparr>results_container = Some []\<rparr>
       = Inl (TypeError (ReadOfNullish JUndefined (ascii ''total'')))
   \<and> (\<exists>e. displayResults plain_host (JObj [(ascii ''answer'', JObj [])]) \<lparr>results_container = Some []\<rparr>
       = Inl (TypeError e))"
  using displayResults_needs_plan_and_answer
    [of "\<lparr>results_container = Some []\<rparr>" JNull plain_host "[(ascii ''plan'', JObj [])]"]
    displayResults_needs_plan_and_answer
    [of "\<lparr>results_container = Some []\<rparr>" JNull plain_host "[(ascii ''answer'', JObj [])]"]
  by (simp add: ascii_def)

section \<open>Properties of apiService.js\<close>

lemma sendQuery_Response:
  "fetch net (ask_request q) w = (Response st body, w1) \<Longrightarrow>
   sendQuery h net q w =
     (if \<not> ok st then Inl (Error (ascii ''HTTP error! status: '' @ decimal st))
      else (case body of
              Inl e \<Rightarrow> Inl e
            | Inr data \<Rightarrow>
                (case get data (ascii ''error'') of
                   Inl e \<Rightarrow> Inl e
                 | Inr err \<Rightarrow>
                     if truthy err then
                       (case ToString h err of
                          Inl e \<Rightarrow> Inl e
                        | Inr msg \<Rightarrow> Inl (Error msg))
                     else Inr data)),
      w1)"
  by (simp add: sendQuery_def)

lemma error_not_length: "ascii ''error'' \<noteq> ascii ''length''"
  by (simp add: ascii_def)

lemma get_error:
  "\<not> nullish data \<Longrightarrow> get data (ascii ''error'') = Inr (own_property data (ascii ''error''))"
  by (cases data) (simp_all add: get_def error_not_length)

text \<open>
  C4 (as amended). When the request is answered by a response, \<open>sendQuery\<close> raises exactly
  when the status is not a success status, or the body cannot be parsed, or the parsed
  response is \<open>null\<close> (or \<open>undefined\<close>), or its \<open>error\<close> field holds a truthy value (for a text:
  a non-empty one). When that value is a non-empty string, the raised error is
  \<open>new Error\<close> of that string. In every other case it returns the parsed response unchanged.
\<close>

theorem sendQuery_raises_iff:
  assumes "fetch net (ask_request q) w = (Response st body, w1)"
  shows "(\<not> ok st \<longrightarrow>
            sendQuery h net q w = (Inl (Error (ascii ''HTTP error! status: '' @ decimal st)), w1))
         \<and> ((\<exists>e. sendQuery h net q w = (Inl e, w1)) \<longleftrightarrow>
            \<not> ok st \<or> (\<exists>e. body = Inl e)
            \<or> (\<exists>data. body = Inr data \<and> (nullish data \<or> truthy (own_property data (ascii ''error'')))))
         \<and> ((\<exists>data. sendQuery h net q w = (Inr data, w1)) \<longleftrightarrow>
            ok st \<and> (\<exists>data. body = Inr data \<and> \<not> nullish data
                        \<and> \<not> truthy (own_property data (ascii ''error''))))
         \<and> (\<forall>data. sendQuery h net q w = (Inr data, w1) \<longrightarrow> body = Inr data)
         \<and> (\<forall>data m. ok st \<and> body = Inr data \<and> own_property data (ascii ''error'') = JStr m \<and> m \<noteq> []
              \<longrightarrow> sendQuery h net q w = (Inl (Error m), w1))"
proof (cases "ok st")
  case False
  with sendQuery_Response [OF assms] show ?thesis by simp
next
  case True
  note okst = this
  show ?thesis
  proof (cases body)
    case (Inl e)
    with okst sendQuery_Response [OF assms] show ?thesis by simp
  next
    case (Inr data)
    show ?thesis
    proof (cases "nullish data")
      case True
      with okst Inr sendQuery_Response [OF assms] show ?thesis
        by (auto simp: get_def nullish_def own_property_def)
    next
      case False
      with okst Inr sendQuery_Response [OF assms] get_error [OF False] show ?thesis
        by (auto split: sum.splits)
    qed
  qed
qed


theorem sendQuery_raises_iff_witness:
  "sendQuery plain_host (\<lambda>n r. Response 200 (Inr (JObj [(ascii ''error'', JStr (ascii ''boom''))]))) (ascii ''hi'') world0
     = (Inl (Error (ascii ''boom'')), \<lparr>trace = [Fetch (ask_request (ascii ''hi''))]\<rparr>)"
proof -
  let ?net = "\<lambda>(n::nat) (r::request). Response 200 (Inr (JObj [(ascii ''error'', JStr (ascii ''boom''))]))"
  have f: "fetch ?net (ask_request (ascii ''hi'')) world0
      = (Response 200 (Inr (JObj [(ascii ''error'', JStr (ascii ''boom''))])),
         \<lparr>trace = [Fetch (ask_request (ascii ''hi''))]\<rparr>)"
    by (simp add: fetch_def world0_def)
  have p: "own_property (JObj [(ascii ''error'', JStr (ascii ''boom''))]) (ascii ''error'') = JStr (ascii ''boom'')"
    by (simp add: own_property_def)
  have "ok 200" by (simp add: ok_def)
  moreover have "ascii ''boom'' \<noteq> []" by (simp add: ascii_def)
  ultimately show ?thesis
    using sendQuery_raises_iff [OF f] p by blast
qed

text \<open>
  C4 as stated fails in both directions: a success response \<open>{"error": ""}\<close> carries an
  error field and is returned, not raised; and the success response \<open>null\<close> carries no error
  field and makes \<open>sendQuery\<close> raise.
\<close>

theorem sendQuery_error_field_counterexample:
  "sendQuery plain_host (\<lambda>n r. Response 200 (Inr (JObj [(ascii ''error'', JStr [])]))) (ascii ''hi'') world0
     = (Inr (JObj [(ascii ''error'', JStr [])]), \<lparr>trace = [Fetch (ask_request (ascii ''hi''))]\<rparr>)
   \<and> sendQuery plain_host (\<lambda>n r. Response 200 (Inr JNull)) (ascii ''hi'') world0
     = (Inl (TypeError (ReadOfNullish JNull (ascii ''error''))), \<lparr>trace = [Fetch (ask_request (ascii ''hi''))]\<rparr>)"
  by (simp add: sendQuery_def fetch_def world0_def ok_def get_def nullish_def own_property_def)

lemma requests_append: "requests (xs @ ys) = requests xs + requests ys"
  by (simp add: requests_def)

lemma requests_retry_trace: "requests (retry_trace n) = n + 1"
  by (induction n) (simp_all add: requests_def)

lemma checkHealth_try_eq:
  "checkHealth_try net w =
     (checkHealth_outcome (net (requests (trace w)) health_request),
      w\<lparr>trace := trace w @ [Fetch health_request]\<rparr>)"
  by (simp add: checkHealth_try_def fetch_def requests_def)

lemma checkHealth_attempts_bounded:
  "requests (trace (snd (checkHealth net retries w))) \<le> requests (trace w) + nat retries + 1"
proof (induction net retries w rule: checkHealth.induct)
  case (1 net retries w)
  let ?o = "checkHealth_outcome (net (requests (trace w)) health_request)"
  let ?w1 = "w\<lparr>trace := trace w @ [Fetch health_request]\<rparr>"
  show ?case
  proof (cases ?o)
    case (Inr v)
    then show ?thesis
      by (subst checkHealth.simps) (simp add: checkHealth_try_eq requests_def)
  next
    case (Inl e)
    show ?thesis
    proof (cases "retries > 0")
      case False
      with Inl show ?thesis
        by (subst checkHealth.simps) (simp add: checkHealth_try_eq requests_def)
    next
      case True
      have "requests (trace (snd (checkHealth net (retries - 1) (wait RETRY_DELAY ?w1))))
          \<le> requests (trace (wait RETRY_DELAY ?w1)) + nat (retries - 1) + 1"
        using "1.IH" Inl True
        by (simp add: checkHealth_try_eq)
      moreover have "checkHealth net retries w = checkHealth net (retries - 1) (wait RETRY_DELAY ?w1)"
        using Inl True by (subst checkHealth.simps) (simp add: checkHealth_try_eq)
      moreover have "requests (trace (wait RETRY_DELAY ?w1)) = requests (trace w) + 1"
        by (simp add: wait_def requests_def)
      moreover have "nat (retries - 1) + 1 = nat retries" using True by simp
      ultimately show ?thesis by simp
    qed
  qed
qed

lemma checkHealth_all_fail:
  assumes fails: "\<And>n. isl (checkHealth_outcome (net n health_request))"
  shows "checkHealth net (int n) w =
     (checkHealth_outcome (net (requests (trace w) + n) health_request),
      w\<lparr>trace := trace w @ retry_trace n\<rparr>)"
proof (induction n arbitrary: w)
  case 0
  from fails [of "requests (trace w)"] obtain e
    where "checkHealth_outcome (net (requests (trace w)) health_request) = Inl e"
    by (auto simp: isl_def)
  then show ?case
    by (subst checkHealth.simps) (simp add: checkHealth_try_eq)
next
  case (Suc n)
  from fails [of "requests (trace w)"] obtain e
    where e: "checkHealth_outcome (net (requests (trace w)) health_request) = Inl e"
    by (auto simp: isl_def)
  have "checkHealth net (int (Suc n)) w =
      checkHealth net (int n) (wait RETRY_DELAY (w\<lparr>trace := trace w @ [Fetch health_request]\<rparr>))"
    by (subst checkHealth.simps) (simp add: checkHealth_try_eq e)
  also have "\<dots> = (checkHealth_outcome (net (requests (trace w) + Suc n) health_request),
      w\<lparr>trace := trace w @ retry_trace (Suc n)\<rparr>)"
    by (simp add: Suc.IH wait_def requests_def)
  finally show ?case .
qed

text \<open>
  C2. When every request to the health endpoint fails, \<open>checkHealth\<close> with the default
  retry budget sends exactly \<open>RETRY_ATTEMPTS + 1 = 4\<close> requests, waits \<open>RETRY_DELAY\<close> (1000
  milliseconds) between each two consecutive requests, and then raises the failure of the
  last request. The recursion is on a counter that decreases by one while it is positive:
  \<open>checkHealth\<close> is a total function, and for any endpoint it sends at most one request
  more than its retry budget (the lemma before).
\<close>

theorem checkHealth_exhausts_retries:
  assumes "\<forall>n. isl (checkHealth_outcome (net n health_request))"
  shows "checkHealth net RETRY_ATTEMPTS w =
           (checkHealth_outcome (net (requests (trace w) + 3) health_request),
            w\<lparr>trace := trace w @
               [Fetch health_request, Wait RETRY_DELAY, Fetch health_request, Wait RETRY_DELAY,
                Fetch health_request, Wait RETRY_DELAY, Fetch health_request]\<rparr>)
         \<and> isl (fst (checkHealth net RETRY_ATTEMPTS w))
         \<and> requests (trace (snd (checkHealth net RETRY_ATTEMPTS w))) = requests (trace w) + 4
         \<and> RETRY_ATTEMPTS + 1 = 4 \<and> RETRY_DELAY = 1000"
proof -
  have r: "retry_trace 3 = [Fetch health_request, Wait RETRY_DELAY, Fetch health_request, Wait RETRY_DELAY,
                Fetch health_request, Wait RETRY_DELAY, Fetch health_request]"
    by (simp add: numeral_3_eq_3)
  have "checkHealth net (int 3) w =
     (checkHealth_outcome (net (requests (trace w) + 3) health_request),
      w\<lparr>trace := trace w @ retry_trace 3\<rparr>)"
    using assms by (intro checkHealth_all_fail) simp
  then have eq: "checkHealth net RETRY_ATTEMPTS w =
           (checkHealth_outcome (net (requests (trace w) + 3) health_request),
            w\<lparr>trace := trace w @
               [Fetch health_request, Wait RETRY_DELAY, Fetch health_request, Wait RETRY_DELAY,
                Fetch health_request, Wait RETRY_DELAY, Fetch health_request]\<rparr>)"
    by (simp add: RETRY_ATTEMPTS_def r)
  have "isl (fst (checkHealth net RETRY_ATTEMPTS w))"
    unfolding eq using assms by simp
  moreover have "requests (trace (snd (checkHealth net RETRY_ATTEMPTS w))) = requests (trace w) + 4"
    unfolding eq by (simp add: requests_def)
  moreover have "RETRY_ATTEMPTS + 1 = 4 \<and> RETRY_DELAY = 1000"
    by (simp add: RETRY_ATTEMPTS_def RETRY_DELAY_def)
  ultimately show ?thesis using eq by blast
qed

theorem checkHealth_exhausts_retries_witness:
  "checkHealth (\<lambda>n r. Response 503 (Inr JNull)) RETRY_ATTEMPTS world0 =
     (Inl (Error (ascii ''HTTP 503'')),
      \<lparr>trace = [Fetch health_request, Wait 1000, Fetch health_request, Wait 1000,
                Fetch health_request, Wait 1000, Fetch health_request]\<rparr>)"
proof -
  have "\<forall>n. isl (checkHealth_outcome ((\<lambda>n r. Response 503 (Inr JNull)) n health_request))"
    by (simp add: checkHealth_outcome_def ok_def)
  from checkHealth_exhausts_retries [OF this, of world0]
  have "checkHealth (\<lambda>n r. Response 503 (Inr JNull)) RETRY_ATTEMPTS world0 =
           (checkHealth_outcome (Response 503 (Inr JNull)),
            world0\<lparr>trace := trace world0 @
               [Fetch health_request, Wait RETRY_DELAY, Fetch health_request, Wait RETRY_DELAY,
                Fetch health_request, Wait RETRY_DELAY, Fetch health_request]\<rparr>)"
    by blast
  moreover have "decimal 503 = ascii ''503''"
    by (simp add: decimal.simps ascii_def)
  ultimately show ?thesis
    by (simp add: checkHealth_outcome_def ok_def world0_def RETRY_DELAY_def ascii_def)
qed

section \<open>Properties of statusManager.js\<close>

lemma statusConfig_get_table:
  "statusConfig_get (ascii ''online'') = Entry ([0xD83D, 0xDFE2] @ ascii '' Backend Online'') (ascii ''status-online'')"
  "statusConfig_get (ascii ''offline'') = Entry ([0xD83D, 0xDD34] @ ascii '' Backend Offline'') (ascii ''status-offline'')"
  "statusConfig_get (ascii ''checking'') = Entry ([0xD83D, 0xDFE1] @ ascii '' Checking...'') (ascii ''status-checking'')"
  by (simp_all add: statusConfig_get_def statusConfig_def ascii_def)

lemma statusConfig_get_Missing:
  "statusConfig_get st = Missing \<longleftrightarrow>
     st \<notin> {ascii ''online'', ascii ''offline'', ascii ''checking''} \<and> st \<notin> set Object_prototype_names"
  by (auto simp: statusConfig_get_def statusConfig_def split: option.splits if_splits)

text \<open>
  C10 (as amended). With no indicator element attached, \<open>updateStatus\<close> changes nothing
  for any status. With an indicator, a status that is neither one of \<open>online\<close>, \<open>offline\<close>,
  \<open>checking\<close> nor the name of a member that an object literal inherits (\<open>constructor\<close>,
  \<open>hasOwnProperty\<close>, \<open>isPrototypeOf\<close>, \<open>propertyIsEnumerable\<close>, \<open>toLocaleString\<close>, \<open>toString\<close>,
  \<open>valueOf\<close>, \<open>__proto__\<close>, \<open>__defineGetter__\<close>, \<open>__defineSetter__\<close>, \<open>__lookupGetter__\<close>,
  \<open>__lookupSetter__\<close>) leaves the text and the class of the indicator as they were; and
  each of the three statuses of the table, the only ones the program itself passes, gives
  the indicator the text and the class of its table entry.
\<close>

theorem updateStatus_unknown_status:
  "(indicator sm = None \<longrightarrow> updateStatus st sm = sm)
   \<and> (st \<notin> {ascii ''online'', ascii ''offline'', ascii ''checking''}
        \<and> st \<notin> {ascii ''constructor'', ascii ''hasOwnProperty'', ascii ''isPrototypeOf'',
                   ascii ''propertyIsEnumerable'', ascii ''toLocaleString'', ascii ''toString'',
                   ascii ''valueOf'', ascii ''__proto__'', ascii ''__defineGetter__'',
                   ascii ''__defineSetter__'', ascii ''__lookupGetter__'', ascii ''__lookupSetter__''}
        \<longrightarrow> updateStatus st sm = sm)
   \<and> (indicator sm = Some el \<longrightarrow>
        updateStatus (ascii ''online'') sm =
          sm\<lparr>indicator := Some (el\<lparr>textContent := [0xD83D, 0xDFE2] @ ascii '' Backend Online'',
                                    className := ascii ''status-indicator status-online''\<rparr>)\<rparr>
        \<and> updateStatus (ascii ''offline'') sm =
          sm\<lparr>indicator := Some (el\<lparr>textContent := [0xD83D, 0xDD34] @ ascii '' Backend Offline'',
                                    className := ascii ''status-indicator status-offline''\<rparr>)\<rparr>
        \<and> updateStatus (ascii ''checking'') sm =
          sm\<lparr>indicator := Some (el\<lparr>textContent := [0xD83D, 0xDFE1] @ ascii '' Checking...'',
                                    className := ascii ''status-indicator status-checking''\<rparr>)\<rparr>)"
proof -
  have absent: "updateStatus st sm = sm" if "indicator sm = None"
    using that by (simp add: updateStatus_def)
  have unknown: "updateStatus st sm = sm"
    if "st \<notin> {ascii ''online'', ascii ''offline'', ascii ''checking''}
        \<and> st \<notin> {ascii ''constructor'', ascii ''hasOwnProperty'', ascii ''isPrototypeOf'',
                   ascii ''propertyIsEnumerable'', ascii ''toLocaleString'', ascii ''toString'',
                   ascii ''valueOf'', ascii ''__proto__'', ascii ''__defineGetter__'',
                   ascii ''__defineSetter__'', ascii ''__lookupGetter__'', ascii ''__lookupSetter__''}"
  proof -
    from that have "statusConfig_get st = Missing"
      by (simp add: statusConfig_get_Missing Object_prototype_names_def)
    then show ?thesis
      by (simp add: updateStatus_def split: option.splits)
  qed
  have table: "updateStatus (ascii ''online'') sm =
          sm\<lparr>indicator := Some (el\<lparr>textContent := [0xD83D, 0xDFE2] @ ascii '' Backend Online'',
                                    className := ascii ''status-indicator status-online''\<rparr>)\<rparr>
        \<and> updateStatus (ascii ''offline'') sm =
          sm\<lparr>indicator := Some (el\<lparr>textContent := [0xD83D, 0xDD34] @ ascii '' Backend Offline'',
                                    className := ascii ''status-indicator status-offline''\<rparr>)\<rparr>
        \<and> updateStatus (ascii ''checking'') sm =
          sm\<lparr>indicator := Some (el\<lparr>textContent := [0xD83D, 0xDFE1] @ ascii '' Checking...'',
                                    className := ascii ''status-indicator status-checking''\<rparr>)\<rparr>"
    if "indicator sm = Some el"
    using that by (simp add: updateStatus_def statusConfig_get_table) (simp add: ascii_def)
  from absent unknown table show ?thesis by blast
qed

theorem updateStatus_unknown_status_witness:
  "updateStatus (ascii ''online'') \<lparr>indicator = None\<rparr> = \<lparr>indicator = None\<rparr>
   \<and> updateStatus (ascii ''busy'')
        \<lparr>indicator = Some \<lparr>textContent = ascii ''x'', className = ascii ''status-indicator''\<rparr>\<rparr>
      = \<lparr>indicator = Some \<lparr>textContent = ascii ''x'', className = ascii ''status-indicator''\<rparr>\<rparr>
   \<and> updateStatus (ascii ''offline'')
        \<lparr>indicator = Some \<lparr>textContent = ascii ''x'', className = ascii ''status-indicator''\<rparr>\<rparr>
      = \<lparr>indicator = Some \<lparr>textContent = [0xD83D, 0xDD34] @ ascii '' Backend Offline'',
                            className = ascii ''status-indicator status-offline''\<rparr>\<rparr>"
proof -
  have "ascii ''busy'' \<notin> {ascii ''online'', ascii ''offline'', ascii ''checking''}
        \<and> ascii ''busy'' \<notin> {ascii ''constructor'', ascii ''hasOwnProperty'', ascii ''isPrototypeOf'',
                   ascii ''propertyIsEnumerable'', ascii ''toLocaleString'', ascii ''toString'',
                   ascii ''valueOf'', ascii ''__proto__'', ascii ''__defineGetter__'',
                   ascii ''__defineSetter__'', ascii ''__lookupGetter__'', ascii ''__lookupSetter__''}"
    by (simp add: ascii_def)
  with updateStatus_unknown_status [of "\<lparr>indicator = None\<rparr>" "ascii ''online''"]
    updateStatus_unknown_status
      [of "\<lparr>indicator = Some \<lparr>textContent = ascii ''x'', className = ascii ''status-indicator''\<rparr>\<rparr>"
          "ascii ''busy''" "\<lparr>textContent = ascii ''x'', className = ascii ''status-indicator''\<rparr>"]
  show ?thesis by simp
qed

text \<open>
  C10 as stated fails for the status \<open>constructor\<close>, which is outside the three of the
  table: the lookup in the object literal finds the inherited member, the guard
  \<open>if (config)\<close> lets it pass, and the indicator that showed the online entry is left with
  no text and the class \<open>status-indicator undefined\<close>.
\<close>

theorem updateStatus_constructor_counterexample:
  "updateStatus (ascii ''constructor'')
     \<lparr>indicator = Some \<lparr>textContent = [0xD83D, 0xDFE2] @ ascii '' Backend Online'',
                         className = ascii ''status-indicator status-online''\<rparr>\<rparr>
   = \<lparr>indicator = Some \<lparr>textContent = [], className = ascii ''status-indicator undefined''\<rparr>\<rparr>"
  by (simp add: updateStatus_def statusConfig_get_def statusConfig_def Object_prototype_names_def
      ascii_def)

section \<open>Properties of chatModule.js\<close>

lemma isLoading_setLoading: "isLoading (setLoading b cm) = b"
  by (simp add: setLoading_def Let_def split: option.splits)

lemma isLoading_resume: "isLoading (chat (sendMessage_resume h outcome s)) = False"
  by (simp add: sendMessage_resume_def Let_def isLoading_setLoading)

lemma sendMessage_begin_busy: "isLoading (chat s) \<Longrightarrow> sendMessage_begin s = (Returned, s)"
  by (simp add: sendMessage_begin_def)

lemma sendMessage_begin_Awaiting:
  "sendMessage_begin s = (Awaiting m, s1) \<Longrightarrow> \<not> isLoading (chat s) \<and> isLoading (chat s1)"
  by (auto simp: sendMessage_begin_def Let_def isLoading_setLoading split: if_splits option.splits)

lemma sendMessage_begin_other:
  "sendMessage_begin s = (Returned, s1) \<or> sendMessage_begin s = (Threw e, s1) \<Longrightarrow> s1 = s"
  by (auto simp: sendMessage_begin_def Let_def split: if_splits option.splits)

text \<open>
  C3. While the busy flag is set, \<open>sendMessage\<close> returns at once: the page is unchanged
  (no message is appended) and no request is sent. When \<open>sendMessage\<close> has sent its query
  and waits, the flag is set, so that a further call is such a no-op; and when the
  execution finishes, whatever the outcome of the query (a response or a failure) and
  whatever the page was in between, the flag is not set. An execution that starts with
  the flag not set always ends with the flag not set.
\<close>

theorem sendMessage_busy:
  "(isLoading (chat s) \<longrightarrow> sendMessage_begin s = (Returned, s) \<and> sendMessage h net s w = (None, s, w))
   \<and> (sendMessage_begin s = (Awaiting m, s1) \<longrightarrow>
        isLoading (chat s1) \<and> sendMessage_begin s1 = (Returned, s1)
        \<and> (\<forall>outcome s2. \<not> isLoading (chat (sendMessage_resume h outcome s2))))
   \<and> (\<not> isLoading (chat s) \<longrightarrow> \<not> isLoading (chat (fst (snd (sendMessage h net s w)))))"
proof -
  have busy: "sendMessage_begin s = (Returned, s) \<and> sendMessage h net s w = (None, s, w)"
    if "isLoading (chat s)"
    using that by (simp add: sendMessage_def sendMessage_begin_busy)
  have awaiting: "isLoading (chat s1) \<and> sendMessage_begin s1 = (Returned, s1)
        \<and> (\<forall>outcome s2. \<not> isLoading (chat (sendMessage_resume h outcome s2)))"
    if "sendMessage_begin s = (Awaiting m, s1)"
    using sendMessage_begin_Awaiting [OF that]
    by (simp add: isLoading_resume sendMessage_begin_busy)
  have idle: "\<not> isLoading (chat (fst (snd (sendMessage h net s w))))" if idle: "\<not> isLoading (chat s)"
  proof (cases "sendMessage_begin s")
    case (Pair step s1)
    show ?thesis
    proof (cases step)
      case Returned
      with Pair sendMessage_begin_other [of s s1] idle show ?thesis
        by (simp add: sendMessage_def)
    next
      case (Threw e)
      with Pair sendMessage_begin_other [of s s1 e] idle show ?thesis
        by (simp add: sendMessage_def)
    next
      case (Awaiting m)
      with Pair show ?thesis
        by (simp add: sendMessage_def isLoading_resume split: prod.splits)
    qed
  qed
  from busy awaiting idle show ?thesis by blast
qed

theorem sendMessage_busy_witness:
  "sendMessage plain_host (\<lambda>n r. Response 500 (Inr JNull)) (page (ascii ''hi'') True) world0
     = (None, page (ascii ''hi'') True, world0)
   \<and> isLoading (chat (snd (sendMessage_begin (page (ascii ''hi'') False))))
   \<and> \<not> isLoading (chat (sendMessage_resume plain_host (Inl (Error (ascii ''HTTP error! status: 500'')))
          (snd (sendMessage_begin (page (ascii ''hi'') False)))))
   \<and> \<not> isLoading (chat (fst (snd (sendMessage plain_host (\<lambda>n r. Response 500 (Inr JNull)) (page (ascii ''hi'') False) world0))))"
proof -
  have b: "isLoading (chat (page (ascii ''hi'') True))" by (simp add: page_def)
  have i: "\<not> isLoading (chat (page (ascii ''hi'') False))" by (simp add: page_def)
  have t: "trim (ascii ''hi'') = ascii ''hi''"
    by (simp add: trim_def ascii_def isWhiteSpace_def)
  obtain s1 where a: "sendMessage_begin (page (ascii ''hi'') False) = (Awaiting (ascii ''hi''), s1)"
    using t by (simp add: sendMessage_begin_def page_def Let_def ascii_def)
  from sendMessage_busy [of "page (ascii ''hi'') True" plain_host "\<lambda>n r. Response 500 (Inr JNull)" world0]
    sendMessage_busy [of "page (ascii ''hi'') False" plain_host "\<lambda>n r. Response 500 (Inr JNull)" world0
      "ascii ''hi''" s1]
    b i a
  show ?thesis by simp
qed

text \<open>
  C7. When the trimmed text of the input field is empty, \<open>sendMessage\<close> returns with the
  page unchanged (no message appended, the input not cleared, the flag as it was) and the
  world unchanged (no request sent).
\<close>

theorem sendMessage_empty_input:
  assumes "input (chat s) = Some inp" and "trim (input_value inp) = []"
  shows "sendMessage_begin s = (Returned, s) \<and> sendMessage h net s w = (None, s, w)"
  using assms by (simp add: sendMessage_def sendMessage_begin_def)

theorem sendMessage_empty_input_witness:
  "sendMessage plain_host (\<lambda>n r. Response 200 (Inr JNull)) (page (ascii ''   '') False) world0
     = (None, page (ascii ''   '') False, world0)"
proof -
  have "input (chat (page (ascii ''   '') False))
      = Some \<lparr>input_value = ascii ''   '', input_disabled = False, input_focused = True\<rparr>"
    by (simp add: page_def)
  moreover have "trim (input_value \<lparr>input_value = ascii ''   '', input_disabled = False, input_focused = True\<rparr>) = []"
    by (simp add: trim_def ascii_def isWhiteSpace_def)
  ultimately show ?thesis
    using sendMessage_empty_input by blast
qed



end
